theory Spec2Isabelle
  imports Main "HOL-Library.Sublist"
begin

section \<open>Values, errors and promises\<close>

text \<open>
  The repository has three modules: \<^verbatim>\<open>pyodide-worker.ts\<close> (the code that runs inside the
  Web Worker), \<^verbatim>\<open>pyodide-api.ts\<close> (the main-thread client that owns the Worker and talks
  to it through Comlink) and \<^verbatim>\<open>initializePyodide.ts\<close> (the process-wide singleton on top of
  the client). Each module is embedded as a record of its module-level variables and one
  function per source function, which takes the state and returns the result with the new
  state.

  \<^verbatim>\<open>JSONValue\<close> is the type of the globals passed to Python and of what \<^verbatim>\<open>JSON.parse\<close>
  returns. Numbers are restricted to the integers.
\<close>

datatype json =
    JNull
  | JBool bool
  | JNum int
  | JStr string
  | JArr "json list"
  | JObj "(string \<times> json) list"

text \<open>What \<^verbatim>\<open>runPython\<close> resolves to is typed \<^verbatim>\<open>unknown\<close>: \<^verbatim>\<open>undefined\<close> or a value.\<close>

datatype jsval = Undefined | Val json

text \<open>The truthiness test of \<^verbatim>\<open>if (result)\<close>.\<close>

fun truthy :: "jsval \<Rightarrow> bool" where
  "truthy Undefined = False"
| "truthy (Val JNull) = False"
| "truthy (Val (JBool b)) = b"
| "truthy (Val (JNum n)) = (n \<noteq> 0)"
| "truthy (Val (JStr s)) = (s \<noteq> [])"
| "truthy (Val (JArr xs)) = True"
| "truthy (Val (JObj kvs)) = True"

text \<open>
  A thrown value is either an instance of \<^verbatim>\<open>Error\<close> (with its \<^verbatim>\<open>name\<close> and its
  \<^verbatim>\<open>message\<close>) or any other value; \<open>instanceof_Error\<close> is the test
  \<^verbatim>\<open>err instanceof Error\<close>, and \<open>new_Error\<close> is \<^verbatim>\<open>new Error(message)\<close>.
\<close>

datatype thrown = ErrorObj string string | NonError jsval

fun instanceof_Error :: "thrown \<Rightarrow> bool" where
  "instanceof_Error (ErrorObj n m) = True"
| "instanceof_Error (NonError v) = False"

definition new_Error :: "string \<Rightarrow> thrown" where
  "new_Error m = ErrorObj ''Error'' m"

text \<open>
  A promise is pending, fulfilled with a value or rejected with what was thrown. What a
  call has produced so far is \<open>Suspended\<close> while it waits at an \<^verbatim>\<open>await\<close> on a pending
  promise.
\<close>

datatype 'a pstate = Pending | Fulfilled 'a | Rejected thrown

datatype 'a completion = Suspended | Throws thrown | Returns 'a

text \<open>Callbacks are compared by reference: a callback is its identity.\<close>

datatype callback = Callback nat

record io_options =
  stdout :: "callback option"
  stderr :: "callback option"

section \<open>String operations used by the worker\<close>

text \<open>
  Strings are lists of characters. The separator and the marker the worker looks for are
  ASCII, so it makes no difference to them how the other characters are encoded.

  \<^verbatim>\<open>message.split("\n")\<close>: the only separator ever passed is the one-character string
  \<^verbatim>\<open>"\n"\<close>, so the separator is a character. The result is never empty: the empty string
  splits into one empty line.
\<close>

fun js_split :: "char \<Rightarrow> string \<Rightarrow> string list" where
  "js_split sep [] = [[]]"
| "js_split sep (c # cs) =
     (if c = sep then [] # js_split sep cs
      else (case js_split sep cs of [] \<Rightarrow> [[c]] | l # ls \<Rightarrow> (c # l) # ls))"

text \<open>\<^verbatim>\<open>line.includes(needle)\<close>: \<open>needle\<close> occurs in \<open>line\<close> as a contiguous substring.\<close>

fun js_includes :: "string \<Rightarrow> string \<Rightarrow> bool" where
  "js_includes [] needle = (needle = [])"
| "js_includes (c # cs) needle = (prefix needle (c # cs) \<or> js_includes cs needle)"

text \<open>\<^verbatim>\<open>lines.join(sep)\<close>.\<close>

fun js_join :: "string \<Rightarrow> string list \<Rightarrow> string" where
  "js_join sep [] = []"
| "js_join sep [x] = x"
| "js_join sep (x # y # ys) = x @ sep @ js_join sep (y # ys)"

definition newline :: char where
  "newline = CHR 0x0A"

definition exec_marker :: string where
  \<open>exec_marker = ''File "<exec>"''\<close>

section \<open>The worker module (pyodide-worker.ts)\<close>

text \<open>
  The module variables are \<^verbatim>\<open>_pyodideReady\<close> and \<^verbatim>\<open>_output\<close>. The parameters of the one
  running \<^verbatim>\<open>_loadPyodide\<close> call are kept too, because its stdout and stderr handlers close
  over \<^verbatim>\<open>options\<close> and its continuation reads \<^verbatim>\<open>packages\<close>. \<open>invoked\<close> is the trace of the
  calls the module has made to callbacks, each with the place it was made from:
  an \<^verbatim>\<open>options.stdout\<close> or \<^verbatim>\<open>options.stderr\<close> handler, or the \<^verbatim>\<open>_output\<close> sink.
\<close>

datatype route = ViaOptions | ViaOutput

type_synonym delivery = "route \<times> callback \<times> string"

record endpoint =
  pyodideReady :: "unit pstate option"
  output_sink :: "callback option"
  load_packages :: "string list"
  load_options :: "io_options option"
  invoked :: "delivery list"

definition fresh_endpoint :: endpoint where
  "fresh_endpoint =
     \<lparr>pyodideReady = None, output_sink = None, load_packages = [], load_options = None,
      invoked = []\<rparr>"

definition invoke :: "route \<Rightarrow> callback \<Rightarrow> string \<Rightarrow> endpoint \<Rightarrow> endpoint" where
  "invoke r cb msg e = e\<lparr>invoked := invoked e @ [(r, cb, msg)]\<rparr>"

text \<open>
  \<^verbatim>\<open>_loadPyodide\<close> up to its first \<^verbatim>\<open>await\<close>: it has its parameters (\<^verbatim>\<open>packages\<close> defaults
  to the empty array) and has asked the engine to load; the promise it returns is pending.
\<close>

definition priv_loadPyodide ::
  "string list option \<Rightarrow> io_options option \<Rightarrow> endpoint \<Rightarrow> unit pstate \<times> endpoint" where
  "priv_loadPyodide pkgs opts e =
     (Pending,
      e\<lparr>load_packages := (case pkgs of None \<Rightarrow> [] | Some ps \<Rightarrow> ps), load_options := opts\<rparr>)"

text \<open>
  What the engine answers to the steps of \<^verbatim>\<open>_loadPyodide\<close>: loading the engine, loading
  micropip, and importing micropip and installing the packages through it. \<open>None\<close> when
  the step succeeds, the thrown value when it fails.
\<close>

record load_env =
  loadPyodide_fails :: "thrown option"
  loadPackage_fails :: "thrown option"
  install_fails :: "thrown option"

text \<open>
  The rest of \<^verbatim>\<open>_loadPyodide\<close>: how its promise settles. micropip is loaded and asked to
  install only when \<^verbatim>\<open>packages.length > 0\<close>.
\<close>

definition priv_loadPyodide_settles :: "load_env \<Rightarrow> string list \<Rightarrow> unit pstate" where
  "priv_loadPyodide_settles env pkgs =
     (case loadPyodide_fails env of
        Some t \<Rightarrow> Rejected t
      | None \<Rightarrow>
          if length pkgs > 0 then
            (case loadPackage_fails env of
               Some t \<Rightarrow> Rejected t
             | None \<Rightarrow>
                 (case install_fails env of Some t \<Rightarrow> Rejected t | None \<Rightarrow> Fulfilled ()))
          else Fulfilled ())"

definition load_settles :: "load_env \<Rightarrow> endpoint \<Rightarrow> endpoint" where
  "load_settles env e =
     (if pyodideReady e = Some Pending
      then e\<lparr>pyodideReady := Some (priv_loadPyodide_settles env (load_packages e))\<rparr>
      else e)"

text \<open>\<^verbatim>\<open>initialize\<close> is not async: its \<^verbatim>\<open>throw\<close> is a synchronous one.\<close>

definition initialize ::
  "string list option \<Rightarrow> io_options option \<Rightarrow> endpoint \<Rightarrow> thrown + endpoint" where
  "initialize pkgs opts e =
     (if pyodideReady e \<noteq> None then Inl (new_Error ''pyodide was already initialized'')
      else (let (p, e1) = priv_loadPyodide pkgs opts e
            in Inr (e1\<lparr>pyodideReady := Some p\<rparr>)))"

text \<open>
  The \<^verbatim>\<open>stdout\<close> and \<^verbatim>\<open>stderr\<close> handlers that \<^verbatim>\<open>_loadPyodide\<close> gives to the engine. Each
  calls the handler of \<^verbatim>\<open>options\<close> if there is one, then \<^verbatim>\<open>_output\<close> if it is set. What
  they write to the console under \<^verbatim>\<open>DEBUG\<close> is left out.
\<close>

definition stdout_handler :: "string \<Rightarrow> endpoint \<Rightarrow> endpoint" where
  "stdout_handler msg e =
     (let e1 = (case load_options e of
                  None \<Rightarrow> e
                | Some opts \<Rightarrow>
                    (case stdout opts of None \<Rightarrow> e | Some f \<Rightarrow> invoke ViaOptions f msg e))
      in (case output_sink e1 of None \<Rightarrow> e1 | Some g \<Rightarrow> invoke ViaOutput g msg e1))"

definition stderr_handler :: "string \<Rightarrow> endpoint \<Rightarrow> endpoint" where
  "stderr_handler msg e =
     (let e1 = (case load_options e of
                  None \<Rightarrow> e
                | Some opts \<Rightarrow>
                    (case stderr opts of None \<Rightarrow> e | Some f \<Rightarrow> invoke ViaOptions f msg e))
      in (case output_sink e1 of None \<Rightarrow> e1 | Some g \<Rightarrow> invoke ViaOutput g msg e1))"

text \<open>
  The engine (\<^verbatim>\<open>self.pyodide\<close>) is outside the repository: its two operations used by
  \<^verbatim>\<open>runPython\<close> are parameters. Each returns a value or throws.
\<close>

datatype pyobj = PyObj nat

type_synonym globals = "(string \<times> json) list"

record engine =
  toPy :: "globals \<Rightarrow> thrown + pyobj"
  runPythonAsync :: "string \<Rightarrow> pyobj option \<Rightarrow> thrown + jsval"

text \<open>
  \<^verbatim>\<open>runPython\<close> of the worker. \<^verbatim>\<open>await _pyodideReady\<close> waits while the promise is pending,
  throws its reason when it is rejected and goes on when it is fulfilled or when the
  variable is still \<^verbatim>\<open>null\<close>. The conversion of the globals is outside the \<^verbatim>\<open>try\<close>.
  The function gives the call from its \<^verbatim>\<open>await\<close> to its end in one step: the state it
  takes is the state of the module when the evaluation settles, which is when the
  \<^verbatim>\<open>catch\<close> block reads \<^verbatim>\<open>_output\<close>. A call that finds the promise pending is still
  waiting and has done nothing.
\<close>

definition runPython_w ::
  "engine \<Rightarrow> string \<Rightarrow> globals option \<Rightarrow> endpoint \<Rightarrow> jsval completion \<times> endpoint" where
  "runPython_w eng code gl e =
     (case pyodideReady e of
        Some Pending \<Rightarrow> (Suspended, e)
      | Some (Rejected r) \<Rightarrow> (Throws r, e)
      | _ \<Rightarrow>
          (case (case gl of
                   None \<Rightarrow> Inr None
                 | Some g \<Rightarrow> (case toPy eng g of Inl t \<Rightarrow> Inl t | Inr py \<Rightarrow> Inr (Some py))) of
             Inl t \<Rightarrow> (Throws t, e)
           | Inr opts \<Rightarrow>
               (case runPythonAsync eng code opts of
                  Inr v \<Rightarrow> (Returns v, e)
                | Inl err \<Rightarrow>
                    (case err of
                       ErrorObj n message \<Rightarrow>
                         (let lines = js_split newline message;
                              cleanedLines =
                                filter (\<lambda>line. \<not> js_includes line exec_marker) lines;
                              errorMessage = js_join [newline] cleanedLines;
                              e1 = (case output_sink e of
                                      None \<Rightarrow> e
                                    | Some g \<Rightarrow> invoke ViaOutput g errorMessage e)
                          in (Throws (new_Error errorMessage), e1))
                     | NonError v \<Rightarrow> (Throws err, e)))))"

definition setOutput_w :: "callback option \<Rightarrow> endpoint \<Rightarrow> endpoint" where
  "setOutput_w cb e = e\<lparr>output_sink := cb\<rparr>"

text \<open>
  What can happen to a worker: \<^verbatim>\<open>initialize\<close> or \<^verbatim>\<open>setOutput\<close> is called, a call of
  \<^verbatim>\<open>runPython\<close> gets past its \<^verbatim>\<open>await\<close> and its evaluation settles, the promise of
  \<^verbatim>\<open>_loadPyodide\<close> settles, or the engine writes to stdout or stderr. The engine and its
  handlers exist only once \<^verbatim>\<open>initialize\<close> has run. An \<^verbatim>\<open>initialize\<close> that throws leaves the
  state as it was.
\<close>

datatype ep_event =
    EInitialize "string list option" "io_options option"
  | ELoadSettles load_env
  | ERunPython engine string "globals option"
  | ESetOutput "callback option"
  | EStdout string
  | EStderr string

fun ep_step :: "ep_event \<Rightarrow> endpoint \<Rightarrow> endpoint" where
  "ep_step (EInitialize pkgs opts) e =
     (case initialize pkgs opts e of Inl t \<Rightarrow> e | Inr e1 \<Rightarrow> e1)"
| "ep_step (ELoadSettles env) e = load_settles env e"
| "ep_step (ERunPython eng code gl) e = snd (runPython_w eng code gl e)"
| "ep_step (ESetOutput cb) e = setOutput_w cb e"
| "ep_step (EStdout msg) e = (if pyodideReady e = None then e else stdout_handler msg e)"
| "ep_step (EStderr msg) e = (if pyodideReady e = None then e else stderr_handler msg e)"

fun ep_run :: "ep_event list \<Rightarrow> endpoint \<Rightarrow> endpoint" where
  "ep_run [] e = e"
| "ep_run (ev # evs) e = ep_run evs (ep_step ev e)"

fun is_ESetOutput :: "ep_event \<Rightarrow> bool" where
  "is_ESetOutput (ESetOutput cb) = True"
| "is_ESetOutput ev = False"

section \<open>The client module (pyodide-api.ts)\<close>

text \<open>
  The main thread is one record: the variables of the client module (\<^verbatim>\<open>_worker\<close> and
  \<^verbatim>\<open>_runner\<close>), the variable \<^verbatim>\<open>pyodide\<close> of the singleton module, the calls made to
  \<^verbatim>\<open>setDebug\<close>, and the objects the variables refer to. A Worker is named by its position in \<open>workers\<close>: every
  \<^verbatim>\<open>new Worker(...)\<close> appends one, with a fresh copy of the worker module. A promise of
  type \<^verbatim>\<open>Promise<Pyodide>\<close> is named by its position in \<open>promises\<close>: every call of
  \<^verbatim>\<open>initializeWorker\<close> appends one. The object that \<^verbatim>\<open>initializeWorker\<close> returns is built
  anew by every call that gets that far, so it is named by the promise of its call.

  Three things are abstracted. A promise returned from an async function by
  \<^verbatim>\<open>return p\<close>, with \<open>p\<close> a promise, settles exactly as \<open>p\<close> does, and is identified with
  \<open>p\<close>. A call through Comlink whose arguments can be sent runs the exposed function of
  the worker at once, and what it throws arrives unchanged. A proxied callback is
  identified with the callback.
\<close>

datatype facade = Facade nat

record worker_instance =
  ep :: endpoint
  creator :: nat

record world =
  pyodide :: "nat option"
  setDebug_calls :: "bool list"
  worker :: "nat option"
  runner :: "nat option"
  workers :: "worker_instance list"
  promises :: "facade pstate list"

definition world0 :: world where
  "world0 =
     \<lparr>pyodide = None, setDebug_calls = [], worker = None, runner = None, workers = [],
      promises = []\<rparr>"

definition proxy :: "callback \<Rightarrow> callback" where
  "proxy cb = cb"

definition not_loaded :: thrown where
  "not_loaded = new_Error ''pyodide isn't loaded yet''"

text \<open>
  Comlink sends the arguments of a call with \<^verbatim>\<open>postMessage\<close>. A callback marked by
  \<^verbatim>\<open>Comlink.proxy\<close> travels as a proxy only when it is itself an argument of the call, as
  in \<^verbatim>\<open>_runner.setOutput(Comlink.proxy(callback))\<close>. Inside another object, as in the
  options \<^verbatim>\<open>{stdout: Comlink.proxy(f)}\<close> that \<^verbatim>\<open>initializeWorker\<close> passes, it is a function
  in a plain object: the object cannot be cloned, \<^verbatim>\<open>postMessage\<close> throws a
  \<^verbatim>\<open>DataCloneError\<close>, and the call rejects before anything reaches the Worker. The error is
  an instance of \<^verbatim>\<open>Error\<close>; the wording of its message is the browser's.
\<close>

definition has_handler :: "io_options option \<Rightarrow> bool" where
  "has_handler opts =
     (case opts of None \<Rightarrow> False | Some os \<Rightarrow> stdout os \<noteq> None \<or> stderr os \<noteq> None)"

definition data_clone_error :: thrown where
  "data_clone_error = ErrorObj ''DataCloneError'' ''The object could not be cloned.''"

text \<open>\<^verbatim>\<open>_runner.initialize(packages, proxiedOptions)\<close>, on the worker module \<open>e\<close>.\<close>

definition remote_initialize ::
  "string list option \<Rightarrow> io_options option \<Rightarrow> endpoint \<Rightarrow> thrown + endpoint" where
  "remote_initialize pkgs opts e =
     (if has_handler opts then Inl data_clone_error else initialize pkgs opts e)"

text \<open>
  \<^verbatim>\<open>initializeWorker\<close> up to its \<^verbatim>\<open>await\<close>. With \<^verbatim>\<open>_worker\<close> set it skips the whole block
  and returns the object at once. Otherwise it builds the Worker, wraps it, calls
  \<^verbatim>\<open>initialize\<close> there and waits; \<open>creator\<close> remembers which promise waits for that Worker.
  When the call rejects at once, \<^verbatim>\<open>initializeWorker\<close> throws what it rejected with;
  \<^verbatim>\<open>_worker\<close> and \<^verbatim>\<open>_runner\<close> are set by then, and the Worker has run nothing.
\<close>

definition initializeWorker ::
  "string list option \<Rightarrow> io_options option \<Rightarrow> world \<Rightarrow> nat \<times> world" where
  "initializeWorker pkgs opts w =
     (let p = length (promises w) in
      case worker w of
        Some wk \<Rightarrow> (p, w\<lparr>promises := promises w @ [Fulfilled (Facade p)]\<rparr>)
      | None \<Rightarrow>
          (let wid = length (workers w);
               proxiedOptions =
                 (case opts of
                    None \<Rightarrow> None
                  | Some os \<Rightarrow>
                      Some \<lparr>stdout = map_option proxy (stdout os),
                            stderr = map_option proxy (stderr os)\<rparr>)
           in case remote_initialize pkgs proxiedOptions fresh_endpoint of
                Inl t \<Rightarrow>
                  (p, w\<lparr>worker := Some wid, runner := Some wid,
                        workers := workers w @ [\<lparr>ep = fresh_endpoint, creator = p\<rparr>],
                        promises := promises w @ [Rejected t]\<rparr>)
              | Inr e1 \<Rightarrow>
                  (p, w\<lparr>worker := Some wid, runner := Some wid,
                        workers := workers w @ [\<lparr>ep = e1, creator = p\<rparr>],
                        promises := promises w @ [Pending]\<rparr>)))"

text \<open>
  The promise of \<^verbatim>\<open>_loadPyodide\<close> in the live Worker settles, and with it the call
  \<^verbatim>\<open>_runner.initialize(...)\<close> that \<^verbatim>\<open>initializeWorker\<close> awaits: \<^verbatim>\<open>initializeWorker\<close> returns
  its object, or throws what the load threw. A terminated Worker does nothing any more.
\<close>

definition worker_load_settles :: "load_env \<Rightarrow> world \<Rightarrow> world" where
  "worker_load_settles env w =
     (case worker w of
        None \<Rightarrow> w
      | Some wid \<Rightarrow>
          if wid < length (workers w) \<and> pyodideReady (ep (workers w ! wid)) = Some Pending
          then
            (let wi = workers w ! wid;
                 e1 = load_settles env (ep wi);
                 p = creator wi;
                 w1 = w\<lparr>workers := (workers w)[wid := wi\<lparr>ep := e1\<rparr>]\<rparr>
             in if p < length (promises w1) \<and> promises w1 ! p = Pending
                then w1\<lparr>promises := (promises w1)[p :=
                          (case pyodideReady e1 of
                             Some (Rejected t) \<Rightarrow> Rejected t
                           | _ \<Rightarrow> Fulfilled (Facade p))]\<rparr>
                else w1)
          else w)"

text \<open>The engine of the live Worker writes a line to stdout or stderr.\<close>

definition worker_event :: "ep_event \<Rightarrow> world \<Rightarrow> world" where
  "worker_event ev w =
     (case worker w of
        None \<Rightarrow> w
      | Some wid \<Rightarrow>
          if wid < length (workers w)
          then w\<lparr>workers := (workers w)[wid :=
                    (workers w ! wid)\<lparr>ep := ep_step ev (ep (workers w ! wid))\<rparr>]\<rparr>
          else w)"

text \<open>
  \<^verbatim>\<open>runPython\<close> of the client: the guard \<^verbatim>\<open>!_worker || !_runner\<close>, then the call through
  the runner. A runner always names a Worker of the list; the branch for one that does
  not is never reached and only keeps the lookup total.
\<close>

definition runPython ::
  "engine \<Rightarrow> string \<Rightarrow> globals option \<Rightarrow> world \<Rightarrow> jsval completion \<times> world" where
  "runPython eng code gl w =
     (case (worker w, runner w) of
        (Some wk, Some wid) \<Rightarrow>
          if wid < length (workers w)
          then (let (v, e1) = runPython_w eng code gl (ep (workers w ! wid))
                in (v, w\<lparr>workers := (workers w)[wid := (workers w ! wid)\<lparr>ep := e1\<rparr>]\<rparr>))
          else (Suspended, w)
      | _ \<Rightarrow> (Throws not_loaded, w))"

text \<open>
  \<^verbatim>\<open>runPythonJson\<close>. \<^verbatim>\<open>JSON.parse\<close> is a builtin and a parameter here: it takes the value
  (which it converts to a string itself) and returns the parsed value or throws.
\<close>

definition runPythonJson ::
  "(jsval \<Rightarrow> thrown + json) \<Rightarrow> engine \<Rightarrow> string \<Rightarrow> globals option \<Rightarrow> world
     \<Rightarrow> json completion \<times> world" where
  "runPythonJson JSON_parse eng code gl w =
     (case runPython eng code gl w of
        (Suspended, w1) \<Rightarrow> (Suspended, w1)
      | (Throws t, w1) \<Rightarrow> (Throws t, w1)
      | (Returns result, w1) \<Rightarrow>
          if truthy result
          then (case JSON_parse result of
                  Inl t \<Rightarrow> (Throws t, w1)
                | Inr js \<Rightarrow> (Returns js, w1))
          else (Returns JNull, w1))"

text \<open>\<^verbatim>\<open>setOutput\<close> of the client: the guard is \<^verbatim>\<open>!_runner\<close> alone.\<close>

definition setOutput :: "callback option \<Rightarrow> world \<Rightarrow> unit completion \<times> world" where
  "setOutput cb w =
     (case runner w of
        None \<Rightarrow> (Throws not_loaded, w)
      | Some wid \<Rightarrow>
          (Returns (),
           if wid < length (workers w)
           then w\<lparr>workers := (workers w)[wid :=
                     (workers w ! wid)\<lparr>ep := setOutput_w (map_option proxy cb)
                                                (ep (workers w ! wid))\<rparr>]\<rparr>
           else w))"

definition terminate :: "world \<Rightarrow> world" where
  "terminate w = w\<lparr>worker := None, runner := None\<rparr>"

section \<open>The singleton module (initializePyodide.ts)\<close>

record config = io_options +
  debug :: "bool option"
  packages :: "string list option"

text \<open>
  The module \<^verbatim>\<open>./config\<close>, from which the sources import \<^verbatim>\<open>DEBUG\<close> and \<^verbatim>\<open>setDebug\<close>, is
  not among the source files, and the spec does not describe it. The model keeps what
  the sources show: that \<^verbatim>\<open>setDebug\<close> is called, and with which argument. What the module
  does with it is not modelled. The sources read \<^verbatim>\<open>DEBUG\<close> on the main thread in one
  place, in \<^verbatim>\<open>_initializePyodide\<close>, to decide whether to log a time to the console; that
  function runs in the call that starts the initialization and in no other. The reads
  in the worker module are of the Worker's own copy of \<^verbatim>\<open>./config\<close>.
\<close>

definition setDebug :: "bool \<Rightarrow> world \<Rightarrow> world" where
  "setDebug d w = w\<lparr>setDebug_calls := setDebug_calls w @ [d]\<rparr>"

text \<open>
  \<^verbatim>\<open>_initializePyodide\<close> has no \<^verbatim>\<open>await\<close>: it assigns \<^verbatim>\<open>pyodide\<close> and returns it. The
  elapsed time it logs is console output and is left out.
\<close>

definition priv_initializePyodide ::
  "string list option \<Rightarrow> io_options option \<Rightarrow> world \<Rightarrow> nat \<times> world" where
  "priv_initializePyodide pkgs opts w =
     (let (p, w1) = initializeWorker pkgs opts w
      in (p, w1\<lparr>pyodide := Some p\<rparr>))"

text \<open>
  \<^verbatim>\<open>initializePyodide\<close>: the destructuring with its defaults, \<^verbatim>\<open>setDebug\<close>, and the test
  \<^verbatim>\<open>pyodide === undefined\<close>.
\<close>

definition initializePyodide :: "config option \<Rightarrow> world \<Rightarrow> nat \<times> world" where
  "initializePyodide options w =
     (let dbg = (case options of
                   None \<Rightarrow> False
                 | Some c \<Rightarrow> (case debug c of None \<Rightarrow> False | Some d \<Rightarrow> d));
          pkgs = (case options of None \<Rightarrow> None | Some c \<Rightarrow> packages c);
          out = (case options of None \<Rightarrow> None | Some c \<Rightarrow> stdout c);
          err = (case options of None \<Rightarrow> None | Some c \<Rightarrow> stderr c);
          w1 = setDebug dbg w
      in case pyodide w1 of
           None \<Rightarrow>
             (let workerOptions =
                    (if out \<noteq> None \<or> err \<noteq> None
                     then Some \<lparr>stdout = out, stderr = err\<rparr>
                     else None);
                  (p, w2) = priv_initializePyodide pkgs workerOptions w1
              in (p, w2\<lparr>pyodide := Some p\<rparr>))
         | Some p \<Rightarrow> (p, w1))"

text \<open>
  \<^verbatim>\<open>getPyodide\<close>: its options have \<^verbatim>\<open>stdout\<close> and \<^verbatim>\<open>stderr\<close> only, so
  \<^verbatim>\<open>initializePyodide\<close> sees neither \<^verbatim>\<open>debug\<close> nor \<^verbatim>\<open>packages\<close>.
\<close>

definition getPyodide :: "io_options option \<Rightarrow> world \<Rightarrow> nat \<times> world" where
  "getPyodide options w =
     (case pyodide w of
        Some p \<Rightarrow> (p, w)
      | None \<Rightarrow>
          initializePyodide
            (case options of
               None \<Rightarrow> None
             | Some os \<Rightarrow>
                 Some \<lparr>stdout = stdout os, stderr = stderr os, debug = None, packages = None\<rparr>)
            w)"

section \<open>Runs of the main thread\<close>

text \<open>
  What can happen on the main thread: a call of one of the exported functions, a call of
  one of the functions of the returned object, and what the live Worker does by itself.
\<close>

datatype event =
    CallInitializePyodide "config option"
  | CallGetPyodide "io_options option"
  | CallInitializeWorker "string list option" "io_options option"
  | CallRunPython engine string "globals option"
  | CallSetOutput "callback option"
  | CallTerminate
  | WorkerLoadSettles load_env
  | WorkerStdout string
  | WorkerStderr string

fun step :: "event \<Rightarrow> world \<Rightarrow> world" where
  "step (CallInitializePyodide options) w = snd (initializePyodide options w)"
| "step (CallGetPyodide options) w = snd (getPyodide options w)"
| "step (CallInitializeWorker pkgs opts) w = snd (initializeWorker pkgs opts w)"
| "step (CallRunPython eng code gl) w = snd (runPython eng code gl w)"
| "step (CallSetOutput cb) w = snd (setOutput cb w)"
| "step CallTerminate w = terminate w"
| "step (WorkerLoadSettles env) w = worker_load_settles env w"
| "step (WorkerStdout msg) w = worker_event (EStdout msg) w"
| "step (WorkerStderr msg) w = worker_event (EStderr msg) w"

fun run :: "event list \<Rightarrow> world \<Rightarrow> world" where
  "run [] w = w"
| "run (ev # evs) w = run evs (step ev w)"

text \<open>The promise a call of the singleton module returns.\<close>

fun returned :: "event \<Rightarrow> world \<Rightarrow> nat option" where
  "returned (CallInitializePyodide options) w = Some (fst (initializePyodide options w))"
| "returned (CallGetPyodide options) w = Some (fst (getPyodide options w))"
| "returned ev w = None"

fun is_coordinator_call :: "event \<Rightarrow> bool" where
  "is_coordinator_call (CallInitializePyodide options) = True"
| "is_coordinator_call (CallGetPyodide options) = True"
| "is_coordinator_call ev = False"

text \<open>
  A run in which the application reaches the client only through the singleton module:
  it never calls \<^verbatim>\<open>initializeWorker\<close> itself.
\<close>

fun through_coordinator :: "event \<Rightarrow> bool" where
  "through_coordinator (CallInitializeWorker pkgs opts) = False"
| "through_coordinator ev = True"

section \<open>Invariants and example inputs\<close>

text \<open>
  What holds of the main thread as long as the application goes through the singleton
  module: either nothing has been started, or there is exactly one Worker and exactly one
  promise, the stored one, and that promise follows the \<^verbatim>\<open>_pyodideReady\<close> of that Worker,
  or is rejected with the \<^verbatim>\<open>DataCloneError\<close> while the Worker has run nothing.
\<close>

definition single_init :: "world \<Rightarrow> bool" where
  "single_init w =
     (pyodide w = None \<and> workers w = [] \<and> promises w = [] \<and> worker w = None
        \<and> runner w = None
      \<or> pyodide w = Some 0 \<and> length (workers w) = 1 \<and> length (promises w) = 1
        \<and> creator (workers w ! 0) = 0
        \<and> (worker w = None \<or> worker w = Some 0) \<and> runner w = worker w
        \<and> (pyodideReady (ep (workers w ! 0)) = Some Pending \<and> promises w ! 0 = Pending
           \<or> pyodideReady (ep (workers w ! 0)) = Some (Fulfilled ())
              \<and> promises w ! 0 = Fulfilled (Facade 0)
           \<or> (\<exists>t. pyodideReady (ep (workers w ! 0)) = Some (Rejected t)
                  \<and> promises w ! 0 = Rejected t)
           \<or> pyodideReady (ep (workers w ! 0)) = None
              \<and> promises w ! 0 = Rejected data_clone_error))"

text \<open>
  A call to a callback is accounted for by the sink \<open>cb\<close> and the handlers \<open>opts\<close> when it
  was made through \<^verbatim>\<open>_output\<close> to \<open>cb\<close>, or through \<^verbatim>\<open>options\<close> to one of its two handlers.
\<close>

definition delivery_ok :: "callback option \<Rightarrow> io_options option \<Rightarrow> delivery \<Rightarrow> bool" where
  "delivery_ok cb opts d =
     (case d of (r, c, m) \<Rightarrow>
        r = ViaOutput \<and> cb = Some c
        \<or> r = ViaOptions \<and> (\<exists>os. opts = Some os \<and> (stdout os = Some c \<or> stderr os = Some c)))"

text \<open>
  The handlers that the writes of a run can reach through \<^verbatim>\<open>options\<close>: those of the
  \<^verbatim>\<open>_loadPyodide\<close> that is already running, or else those of the first \<^verbatim>\<open>initialize\<close> of the
  run.
\<close>

fun first_options :: "ep_event list \<Rightarrow> io_options option" where
  "first_options [] = None"
| "first_options (EInitialize pkgs opts # evs) = opts"
| "first_options (ev # evs) = first_options evs"

definition handlers_given :: "endpoint \<Rightarrow> ep_event list \<Rightarrow> io_options option" where
  "handlers_given e evs =
     (if pyodideReady e = None then first_options evs else load_options e)"

text \<open>Concrete engines, loads, configurations and states, for the examples below.\<close>

definition load_ok :: load_env where
  "load_ok = \<lparr>loadPyodide_fails = None, loadPackage_fails = None, install_fails = None\<rparr>"

definition load_failure :: load_env where
  "load_failure =
     \<lparr>loadPyodide_fails = Some (ErrorObj ''Error'' ''Failed to fetch''),
      loadPackage_fails = None, install_fails = None\<rparr>"

definition json_engine :: engine where
  "json_engine =
     \<lparr>toPy = (\<lambda>g. Inr (PyObj 0)),
      runPythonAsync = (\<lambda>code opts. Inr (Val (JStr ''[1,2,3]'')))\<rparr>"

definition traceback_engine :: engine where
  \<open>traceback_engine =
     \<lparr>toPy = (\<lambda>g. Inr (PyObj 0)),
      runPythonAsync = (\<lambda>code opts. Inl (ErrorObj ''PythonError''
        (''Traceback (most recent call last):'' @ [newline] @
         ''  File "<exec>", line 1, in <module>'' @ [newline] @
         ''NameError: name 'x' is not defined'')))\<rparr>\<close>

definition string_thrower :: engine where
  "string_thrower =
     \<lparr>toPy = (\<lambda>g. Inr (PyObj 0)),
      runPythonAsync = (\<lambda>code opts. Inl (NonError (Val (JStr ''boom''))))\<rparr>"

definition type_error_engine :: engine where
  \<open>type_error_engine =
     \<lparr>toPy = (\<lambda>g. Inr (PyObj 0)),
      runPythonAsync = (\<lambda>code opts. Inl (ErrorObj ''TypeError''
        (''f is not a function'' @ [newline] @ ''  File "<exec>", line 2'')))\<rparr>\<close>

definition parse_numbers :: "jsval \<Rightarrow> thrown + json" where
  "parse_numbers v =
     (if v = Val (JStr ''[1,2,3]'') then Inr (JArr [JNum 1, JNum 2, JNum 3])
      else Inl (ErrorObj ''SyntaxError'' ''Unexpected token''))"

definition endpoint_ready :: endpoint where
  "endpoint_ready =
     \<lparr>pyodideReady = Some (Fulfilled ()), output_sink = Some (Callback 1),
      load_packages = [], load_options = Some \<lparr>stdout = Some (Callback 9), stderr = None\<rparr>,
      invoked = []\<rparr>"

definition endpoint_plain :: endpoint where
  "endpoint_plain =
     \<lparr>pyodideReady = Some (Fulfilled ()), output_sink = Some (Callback 1),
      load_packages = [], load_options = None, invoked = []\<rparr>"

definition with_stdout :: config where
  "with_stdout = \<lparr>stdout = Some (Callback 1), stderr = None, debug = None, packages = None\<rparr>"

definition debug_on :: config where
  "debug_on = \<lparr>stdout = None, stderr = None, debug = Some True, packages = None\<rparr>"

text \<open>
  \<open>world_ready\<close>: the client was initialised directly and the load has succeeded.
  \<open>world_pending\<close>: \<^verbatim>\<open>initializeWorker\<close> was called twice in a row; the first call still
  waits for the load, the second has already handed out its object.
  \<open>world_restarted\<close>: the client was initialised, the load succeeded, the Worker was
  terminated and \<^verbatim>\<open>initializeWorker\<close> was called again; that call still waits.
  \<open>world_started\<close>: the singleton was initialised and the load has succeeded.
\<close>

definition world_ready :: world where
  "world_ready = run [CallInitializeWorker None None, WorkerLoadSettles load_ok] world0"

definition world_pending :: world where
  "world_pending = run [CallInitializeWorker None None, CallInitializeWorker None None] world0"

definition world_restarted :: world where
  "world_restarted =
     run [CallInitializeWorker None None, WorkerLoadSettles load_ok, CallTerminate,
          CallInitializeWorker None None] world0"

definition world_started :: world where
  "world_started = run [CallInitializePyodide None, WorkerLoadSettles load_ok] world0"

section \<open>Lemmas about the string operations\<close>

lemma js_includes_sublist: "js_includes s n \<longleftrightarrow> sublist n s"
  by (induction s) (auto simp: sublist_Cons_right)

lemma js_split_not_Nil: "js_split c s \<noteq> []"
  by (induction s) (auto split: list.splits)

lemma js_join_Cons: "ls \<noteq> [] \<Longrightarrow> js_join sep (l # ls) = l @ sep @ js_join sep ls"
  by (cases ls) auto

lemma js_join_split: "js_join [c] (js_split c s) = s"
proof (induction s)
  case Nil
  show ?case by simp
next
  case (Cons a s)
  show ?case
  proof (cases "a = c")
    case True
    with Cons show ?thesis by (simp add: js_join_Cons js_split_not_Nil)
  next
    case False
    obtain l ls where sp: "js_split c s = l # ls"
      using js_split_not_Nil [of c s] by (cases "js_split c s") auto
    with Cons False show ?thesis by (cases ls) auto
  qed
qed

lemma js_split_no_sep: "l \<in> set (js_split c s) \<Longrightarrow> c \<notin> set l"
  by (induction s arbitrary: l) (auto split: if_splits list.splits)

lemma js_split_line: "c \<notin> set l \<Longrightarrow> js_split c l = [l]"
  by (induction l) auto

lemma js_split_append_sep:
  "c \<notin> set l \<Longrightarrow> js_split c (l @ c # s) = l # js_split c s"
  by (induction l) auto

lemma js_split_join:
  "ls \<noteq> [] \<Longrightarrow> \<forall>l \<in> set ls. c \<notin> set l \<Longrightarrow> js_split c (js_join [c] ls) = ls"
proof (induction ls)
  case Nil
  then show ?case by simp
next
  case (Cons x xs)
  show ?case
  proof (cases "xs = []")
    case True
    with Cons.prems show ?thesis by (simp add: js_split_line)
  next
    case False
    with Cons have "js_split c (js_join [c] xs) = xs" by simp
    with False Cons.prems show ?thesis
      by (simp add: js_join_Cons js_split_append_sep)
  qed
qed

section \<open>Lemmas about the worker module\<close>

lemma runPython_w_catch:
  assumes ready: "pyodideReady e = None \<or> pyodideReady e = Some (Fulfilled ())"
    and conv: "(gl = None \<and> opts = None) \<or> (\<exists>g py. gl = Some g \<and> toPy eng g = Inr py \<and> opts = Some py)"
    and err: "runPythonAsync eng code opts = Inl t"
  shows "runPython_w eng code gl e =
     (case t of
        ErrorObj n message \<Rightarrow>
          (let m = js_join [newline] (filter (\<lambda>l. \<not> sublist exec_marker l) (js_split newline message))
           in (Throws (new_Error m),
               (case output_sink e of None \<Rightarrow> e | Some g \<Rightarrow> invoke ViaOutput g m e)))
      | NonError v \<Rightarrow> (Throws t, e))"
  using ready conv err
  by (auto simp: runPython_w_def Let_def js_includes_sublist split: thrown.splits option.splits pstate.splits)

lemma ep_step_ready: "pyodideReady e \<noteq> None \<Longrightarrow> pyodideReady (ep_step ev e) \<noteq> None"
  by (cases ev)
     (auto simp: initialize_def load_settles_def runPython_w_def setOutput_w_def
        stdout_handler_def stderr_handler_def invoke_def Let_def
        split: option.splits pstate.splits sum.splits thrown.splits)

lemma ep_run_ready: "pyodideReady e \<noteq> None \<Longrightarrow> pyodideReady (ep_run evs e) \<noteq> None"
proof (induction evs arbitrary: e)
  case Nil
  then show ?case by simp
next
  case (Cons ev evs)
  from Cons.prems have "pyodideReady (ep_step ev e) \<noteq> None" by (rule ep_step_ready)
  then have "pyodideReady (ep_run evs (ep_step ev e)) \<noteq> None" by (rule Cons.IH)
  then show ?case by simp
qed

lemma runPython_w_ready': "runPython_w eng code gl e = (v, e1) \<Longrightarrow> pyodideReady e1 = pyodideReady e"
  by (auto simp: runPython_w_def invoke_def Let_def
      split: option.splits pstate.splits sum.splits thrown.splits)

lemma handlers_ready:
  "pyodideReady (stdout_handler msg e) = pyodideReady e"
  "pyodideReady (stderr_handler msg e) = pyodideReady e"
  by (auto simp: stdout_handler_def stderr_handler_def invoke_def Let_def split: option.splits)

lemma setOutput_w_ready: "pyodideReady (setOutput_w cb e) = pyodideReady e"
  by (simp add: setOutput_w_def)

lemma fresh_endpoint_ready: "pyodideReady fresh_endpoint = None"
  by (simp add: fresh_endpoint_def)

lemma initialize_fresh:
  "initialize pkgs opts fresh_endpoint =
     Inr (fresh_endpoint\<lparr>load_packages := (case pkgs of None \<Rightarrow> [] | Some ps \<Rightarrow> ps),
                         load_options := opts, pyodideReady := Some Pending\<rparr>)"
  by (simp add: initialize_def priv_loadPyodide_def fresh_endpoint_def)

lemma settles_cases:
  "priv_loadPyodide_settles env pkgs = Fulfilled () \<or> (\<exists>t. priv_loadPyodide_settles env pkgs = Rejected t)"
  by (auto simp: priv_loadPyodide_settles_def split: option.splits)

lemma ep_step_load_options:
  "pyodideReady e \<noteq> None \<Longrightarrow> load_options (ep_step ev e) = load_options e"
  by (cases ev)
     (auto simp: initialize_def load_settles_def runPython_w_def setOutput_w_def
        stdout_handler_def stderr_handler_def invoke_def Let_def
        split: option.splits pstate.splits sum.splits thrown.splits)

lemma handlers_given_step: "handlers_given (ep_step ev e) evs = handlers_given e (ev # evs)"
  by (cases ev)
     (auto simp: handlers_given_def initialize_def priv_loadPyodide_def load_settles_def
        runPython_w_def setOutput_w_def stdout_handler_def stderr_handler_def invoke_def
        Let_def
        split: option.splits pstate.splits sum.splits thrown.splits)

lemma ep_step_delivers:
  assumes "\<not> is_ESetOutput ev"
  shows "\<exists>new. invoked (ep_step ev e) = invoked e @ new
     \<and> output_sink (ep_step ev e) = output_sink e
     \<and> (\<forall>d \<in> set new. delivery_ok (output_sink e) (load_options e) d
            \<and> (fst d = ViaOptions \<longrightarrow> pyodideReady e \<noteq> None))"
proof (cases ev)
  case (EInitialize pkgs opts)
  then show ?thesis
    by (auto simp: initialize_def priv_loadPyodide_def)
next
  case (ELoadSettles env)
  then show ?thesis by (auto simp: load_settles_def)
next
  case (ERunPython eng code gl)
  then show ?thesis
    by (auto simp: runPython_w_def invoke_def Let_def delivery_ok_def
        split: option.splits pstate.splits sum.splits thrown.splits)
next
  case (ESetOutput cb)
  with assms show ?thesis by simp
next
  case (EStdout msg)
  then show ?thesis
    by (auto simp: stdout_handler_def invoke_def Let_def delivery_ok_def split: option.splits)
next
  case (EStderr msg)
  then show ?thesis
    by (auto simp: stderr_handler_def invoke_def Let_def delivery_ok_def split: option.splits)
qed

lemma delivery_ok_opts:
  "delivery_ok cb opts d \<Longrightarrow> (fst d = ViaOptions \<longrightarrow> opts' = opts) \<Longrightarrow> delivery_ok cb opts' d"
  by (auto simp: delivery_ok_def)

lemma ep_run_delivers:
  assumes "\<forall>ev \<in> set evs. \<not> is_ESetOutput ev"
  shows "\<exists>new. invoked (ep_run evs e) = invoked e @ new
     \<and> output_sink (ep_run evs e) = output_sink e
     \<and> (\<forall>d \<in> set new. delivery_ok (output_sink e) (handlers_given e evs) d)"
  using assms
proof (induction evs arbitrary: e)
  case Nil
  then show ?case by simp
next
  case (Cons ev evs)
  from Cons.prems have ev: "\<not> is_ESetOutput ev" and evs: "\<forall>ev \<in> set evs. \<not> is_ESetOutput ev"
    by simp_all
  let ?e1 = "ep_step ev e"
  from ep_step_delivers [OF ev, of e] obtain new1 where
    n1: "invoked ?e1 = invoked e @ new1" and o1: "output_sink ?e1 = output_sink e"
    and d1: "\<forall>d \<in> set new1. delivery_ok (output_sink e) (load_options e) d
            \<and> (fst d = ViaOptions \<longrightarrow> pyodideReady e \<noteq> None)"
    by blast
  from Cons.IH [OF evs, of ?e1] obtain new2 where
    n2: "invoked (ep_run evs ?e1) = invoked ?e1 @ new2"
    and o2: "output_sink (ep_run evs ?e1) = output_sink ?e1"
    and d2: "\<forall>d \<in> set new2. delivery_ok (output_sink ?e1) (handlers_given ?e1 evs) d"
    by blast
  have "delivery_ok (output_sink e) (handlers_given e (ev # evs)) d" if "d \<in> set new1" for d
  proof -
    from that d1 have ok: "delivery_ok (output_sink e) (load_options e) d"
      and rdy: "fst d = ViaOptions \<longrightarrow> pyodideReady e \<noteq> None" by simp_all
    have "fst d = ViaOptions \<longrightarrow> handlers_given e (ev # evs) = load_options e"
      using rdy by (auto simp: handlers_given_def)
    with ok show ?thesis by (rule delivery_ok_opts)
  qed
  with d2 o1 have "\<forall>d \<in> set (new1 @ new2).
      delivery_ok (output_sink e) (handlers_given e (ev # evs)) d"
    by (auto simp: handlers_given_step)
  with n1 n2 o1 o2 show ?case by (intro exI [of _ "new1 @ new2"]) simp
qed

section \<open>Lemmas about the main thread\<close>

lemma initializePyodide_started:
  "pyodide w = Some p \<Longrightarrow>
   initializePyodide options w =
     (p, w\<lparr>setDebug_calls := setDebug_calls w @
            [case options of
               None \<Rightarrow> False
             | Some c \<Rightarrow> (case debug c of None \<Rightarrow> False | Some d \<Rightarrow> d)]\<rparr>)"
  by (simp add: initializePyodide_def setDebug_def Let_def)

lemma getPyodide_started: "pyodide w = Some p \<Longrightarrow> getPyodide options w = (p, w)"
  by (simp add: getPyodide_def)

lemma initializePyodide_first:
  assumes "pyodide w = None" "worker w = None" "workers w = []" "promises w = []"
  shows "fst (initializePyodide options w) = 0"
    and "single_init (snd (initializePyodide options w))"
  using assms
  by (auto simp: initializePyodide_def setDebug_def Let_def priv_initializePyodide_def
      initializeWorker_def remote_initialize_def has_handler_def proxy_def initialize_fresh
      fresh_endpoint_ready single_init_def split: option.splits)

lemma getPyodide_first:
  assumes "pyodide w = None" "worker w = None" "workers w = []" "promises w = []"
  shows "fst (getPyodide options w) = 0"
    and "single_init (snd (getPyodide options w))"
  using assms initializePyodide_first [OF assms]
  by (auto simp: getPyodide_def)

lemma single_init_setDebug: "single_init (w\<lparr>setDebug_calls := xs\<rparr>) = single_init w"
  by (simp add: single_init_def)

lemma length_one_nth: "length xs = Suc 0 \<Longrightarrow> xs = [xs ! 0]"
  by (cases xs) auto

lemma worker_load_settles_idle:
  "worker w = None \<or> (\<exists>wid. worker w = Some wid \<and>
      \<not> (wid < length (workers w) \<and> pyodideReady (ep (workers w ! wid)) = Some Pending))
   \<Longrightarrow> worker_load_settles env w = w"
  by (auto simp: worker_load_settles_def)

lemma worker_load_settles_pending:
  assumes "worker w = Some 0" "workers w = [wi]" "pyodideReady (ep wi) = Some Pending"
    "creator wi = 0" "promises w = [Pending]"
  shows "worker_load_settles env w =
     w\<lparr>workers := [wi\<lparr>ep := (ep wi)\<lparr>pyodideReady :=
                     Some (priv_loadPyodide_settles env (load_packages (ep wi)))\<rparr>\<rparr>],
       promises := [case priv_loadPyodide_settles env (load_packages (ep wi)) of
                      Rejected t \<Rightarrow> Rejected t | _ \<Rightarrow> Fulfilled (Facade 0)]\<rparr>"
  using assms by (simp add: worker_load_settles_def load_settles_def Let_def split: pstate.splits)

lemma worker_load_settles_single_init:
  assumes inv: "single_init w"
  shows "single_init (worker_load_settles env w)"
proof (cases "worker w = Some 0 \<and> pyodide w = Some 0
    \<and> pyodideReady (ep (workers w ! 0)) = Some Pending")
  case True
  with inv have len: "length (workers w) = Suc 0" "length (promises w) = Suc 0"
    and cr: "creator (workers w ! 0) = 0" and pp: "promises w ! 0 = Pending"
    and rw: "runner w = Some 0"
    by (auto simp: single_init_def)
  from len have ws: "workers w = [workers w ! 0]" and ps: "promises w = [promises w ! 0]"
    by (auto dest: length_one_nth)
  have eq: "worker_load_settles env w =
     w\<lparr>workers := [(workers w ! 0)\<lparr>ep := (ep (workers w ! 0))\<lparr>pyodideReady :=
                     Some (priv_loadPyodide_settles env (load_packages (ep (workers w ! 0))))\<rparr>\<rparr>],
       promises := [case priv_loadPyodide_settles env (load_packages (ep (workers w ! 0))) of
                      Rejected t \<Rightarrow> Rejected t | _ \<Rightarrow> Fulfilled (Facade 0)]\<rparr>"
    using True ws cr ps pp
    by (intro worker_load_settles_pending) simp_all
  from settles_cases [of env "load_packages (ep (workers w ! 0))"]
  show ?thesis
  proof
    assume "priv_loadPyodide_settles env (load_packages (ep (workers w ! 0))) = Fulfilled ()"
    then show ?thesis using True rw cr unfolding eq by (simp add: single_init_def)
  next
    assume "\<exists>t. priv_loadPyodide_settles env (load_packages (ep (workers w ! 0))) = Rejected t"
    then obtain t where
      "priv_loadPyodide_settles env (load_packages (ep (workers w ! 0))) = Rejected t" ..
    then show ?thesis using True rw cr unfolding eq by (simp add: single_init_def)
  qed
next
  case False
  with inv have "worker_load_settles env w = w"
    by (intro worker_load_settles_idle) (auto simp: single_init_def)
  with inv show ?thesis by simp
qed

lemma step_single_init:
  assumes "through_coordinator ev" "single_init w"
  shows "single_init (step ev w)"
proof (cases ev)
  case (CallInitializePyodide options)
  show ?thesis
  proof (cases "pyodide w")
    case None
    with assms(2) have "worker w = None" "workers w = []" "promises w = []"
      by (simp_all add: single_init_def)
    with None CallInitializePyodide show ?thesis
      by (simp add: initializePyodide_first)
  next
    case (Some p)
    with assms(2) CallInitializePyodide show ?thesis
      by (simp add: initializePyodide_started single_init_setDebug)
  qed
next
  case (CallGetPyodide options)
  show ?thesis
  proof (cases "pyodide w")
    case None
    with assms(2) have "worker w = None" "workers w = []" "promises w = []"
      by (simp_all add: single_init_def)
    with None CallGetPyodide show ?thesis
      by (simp add: getPyodide_first)
  next
    case (Some p)
    with assms(2) CallGetPyodide show ?thesis
      by (simp add: getPyodide_started)
  qed
next
  case (CallInitializeWorker pkgs opts)
  with assms(1) show ?thesis by simp
next
  case (CallRunPython eng code gl)
  with assms(2) show ?thesis
    by (auto simp: single_init_def runPython_def dest: runPython_w_ready'
        split: option.splits prod.splits)
next
  case (CallSetOutput cb)
  with assms(2) show ?thesis
    by (auto simp: single_init_def setOutput_def setOutput_w_ready split: option.splits)
next
  case CallTerminate
  with assms(2) show ?thesis
    by (auto simp: single_init_def terminate_def split: option.splits)
next
  case (WorkerLoadSettles env)
  with assms(2) show ?thesis by (simp add: worker_load_settles_single_init)
next
  case (WorkerStdout msg)
  with assms(2) show ?thesis
    by (auto simp: single_init_def worker_event_def handlers_ready split: option.splits)
next
  case (WorkerStderr msg)
  with assms(2) show ?thesis
    by (auto simp: single_init_def worker_event_def handlers_ready split: option.splits)
qed

lemma run_single_init:
  "\<forall>ev \<in> set evs. through_coordinator ev \<Longrightarrow> single_init w \<Longrightarrow> single_init (run evs w)"
proof (induction evs arbitrary: w)
  case Nil
  then show ?case by simp
next
  case (Cons ev evs)
  from Cons.prems have "single_init (step ev w)" by (simp add: step_single_init)
  with Cons show ?case by simp
qed

lemma single_init_world0: "single_init world0"
  by (simp add: single_init_def world0_def)

lemma returned_single_init:
  assumes "is_coordinator_call c" "single_init w"
  shows "returned c w = Some 0"
proof (cases "pyodide w")
  case None
  with assms(2) have "worker w = None" "workers w = []" "promises w = []"
    by (simp_all add: single_init_def)
  with None assms(1) show ?thesis
    by (cases c) (simp_all add: initializePyodide_first getPyodide_first)
next
  case (Some p)
  with assms(2) have "p = 0" by (simp add: single_init_def)
  with Some assms(1) show ?thesis
    by (cases c) (simp_all add: initializePyodide_started getPyodide_started)
qed

lemma step_started:
  assumes "is_coordinator_call c" "pyodide w = Some p"
  shows "workers (step c w) = workers w" "promises (step c w) = promises w"
    "worker (step c w) = worker w" "runner (step c w) = runner w"
  using assms
  by (cases c; simp add: initializePyodide_started getPyodide_started)+

lemma first_call_pyodide:
  assumes "pyodide w = None" "worker w = None" "workers w = []" "promises w = []"
  shows "pyodide (snd (initializePyodide options w)) = Some 0"
    and "pyodide (snd (getPyodide os w)) = Some 0"
  using assms
  by (auto simp: getPyodide_def initializePyodide_def setDebug_def Let_def
      priv_initializePyodide_def initializeWorker_def remote_initialize_def has_handler_def
      proxy_def initialize_fresh split: option.splits)

lemma step_rejected:
  assumes "through_coordinator ev" "single_init w"
    "promises w ! 0 = Rejected t" "pyodide w = Some 0"
  shows "promises (step ev w) ! 0 = Rejected t \<and> pyodide (step ev w) = Some 0"
proof (cases ev)
  case (CallInitializePyodide options)
  with assms show ?thesis by (simp add: initializePyodide_started)
next
  case (CallGetPyodide options)
  with assms show ?thesis by (simp add: getPyodide_started)
next
  case (CallInitializeWorker pkgs opts)
  with assms(1) show ?thesis by simp
next
  case (CallRunPython eng code gl)
  with assms(3-) show ?thesis
    by (auto simp: runPython_def split: option.splits prod.splits)
next
  case (CallSetOutput cb)
  with assms(3-) show ?thesis
    by (auto simp: setOutput_def split: option.splits)
next
  case CallTerminate
  with assms(3-) show ?thesis by (simp add: terminate_def)
next
  case (WorkerLoadSettles env)
  from assms(2-) have "worker_load_settles env w = w"
    by (intro worker_load_settles_idle) (auto simp: single_init_def)
  with WorkerLoadSettles assms(2-) show ?thesis by simp
next
  case (WorkerStdout msg)
  with assms(3-) show ?thesis
    by (auto simp: worker_event_def split: option.splits)
next
  case (WorkerStderr msg)
  with assms(3-) show ?thesis
    by (auto simp: worker_event_def split: option.splits)
qed

lemma run_rejected:
  assumes "\<forall>ev \<in> set evs. through_coordinator ev" "single_init w"
    "promises w ! 0 = Rejected t" "pyodide w = Some 0"
  shows "promises (run evs w) ! 0 = Rejected t
     \<and> pyodide (run evs w) = Some 0 \<and> single_init (run evs w)"
  using assms
proof (induction evs arbitrary: w)
  case Nil
  then show ?case by simp
next
  case (Cons ev evs)
  from Cons.prems have 1: "through_coordinator ev" and 2: "\<forall>ev \<in> set evs. through_coordinator ev"
    by simp_all
  from step_rejected [OF 1 Cons.prems(2,3,4)] step_single_init [OF 1 Cons.prems(2)]
  have "promises (run evs (step ev w)) ! 0 = Rejected t
     \<and> pyodide (run evs (step ev w)) = Some 0 \<and> single_init (run evs (step ev w))"
    by (intro Cons.IH [OF 2]) simp_all
  then show ?case by simp
qed

lemma initializeWorker_setDebug:
  "initializeWorker pkgs opts (w\<lparr>setDebug_calls := xs\<rparr>) =
     (fst (initializeWorker pkgs opts w),
      (snd (initializeWorker pkgs opts w))\<lparr>setDebug_calls := xs\<rparr>)"
  by (simp add: initializeWorker_def Let_def split: option.splits sum.splits)

lemma runPython_setDebug:
  "runPython eng code gl (w\<lparr>setDebug_calls := xs\<rparr>) =
     (fst (runPython eng code gl w), (snd (runPython eng code gl w))\<lparr>setDebug_calls := xs\<rparr>)"
  by (simp add: runPython_def split: option.splits prod.splits)

lemma setOutput_setDebug:
  "setOutput cb (w\<lparr>setDebug_calls := xs\<rparr>) =
     (fst (setOutput cb w), (snd (setOutput cb w))\<lparr>setDebug_calls := xs\<rparr>)"
  by (simp add: setOutput_def split: option.splits)

lemma worker_load_settles_setDebug:
  "worker_load_settles env (w\<lparr>setDebug_calls := xs\<rparr>) =
     (worker_load_settles env w)\<lparr>setDebug_calls := xs\<rparr>"
  by (simp add: worker_load_settles_def Let_def split: option.splits)

lemma worker_event_setDebug:
  "worker_event ev (w\<lparr>setDebug_calls := xs\<rparr>) = (worker_event ev w)\<lparr>setDebug_calls := xs\<rparr>"
  by (simp add: worker_event_def split: option.splits)

lemma initializePyodide_setDebug:
  "fst (initializePyodide options (w\<lparr>setDebug_calls := xs\<rparr>)) = fst (initializePyodide options w)"
  "(snd (initializePyodide options (w\<lparr>setDebug_calls := xs\<rparr>)))\<lparr>setDebug_calls := []\<rparr> =
     (snd (initializePyodide options w))\<lparr>setDebug_calls := []\<rparr>"
  by (simp_all add: initializePyodide_def setDebug_def priv_initializePyodide_def Let_def
      initializeWorker_setDebug split: option.splits prod.splits)

lemma getPyodide_setDebug:
  "fst (getPyodide os (w\<lparr>setDebug_calls := xs\<rparr>)) = fst (getPyodide os w)"
  "(snd (getPyodide os (w\<lparr>setDebug_calls := xs\<rparr>)))\<lparr>setDebug_calls := []\<rparr> =
     (snd (getPyodide os w))\<lparr>setDebug_calls := []\<rparr>"
  by (simp_all add: getPyodide_def initializePyodide_setDebug split: option.splits)

lemma step_setDebug:
  "(step ev (w\<lparr>setDebug_calls := xs\<rparr>))\<lparr>setDebug_calls := []\<rparr> =
     (step ev w)\<lparr>setDebug_calls := []\<rparr>"
  by (cases ev)
     (simp_all add: initializePyodide_setDebug getPyodide_setDebug initializeWorker_setDebug
        runPython_setDebug setOutput_setDebug worker_load_settles_setDebug
        worker_event_setDebug terminate_def)

lemma returned_setDebug: "returned ev (w\<lparr>setDebug_calls := xs\<rparr>) = returned ev w"
  by (cases ev) (simp_all add: initializePyodide_setDebug getPyodide_setDebug)

lemmas eval_defs =
  world0_def initializeWorker_def remote_initialize_def has_handler_def proxy_def initialize_def
  priv_loadPyodide_def worker_load_settles_def load_settles_def
  priv_loadPyodide_settles_def load_ok_def load_failure_def Let_def fresh_endpoint_def
  initializePyodide_def priv_initializePyodide_def getPyodide_def setDebug_def terminate_def

lemma world_ready_eq:
  "world_ready =
     \<lparr>pyodide = None, setDebug_calls = [], worker = Some 0, runner = Some 0,
      workers = [\<lparr>ep = \<lparr>pyodideReady = Some (Fulfilled ()), output_sink = None,
                         load_packages = [], load_options = None, invoked = []\<rparr>,
                  creator = 0\<rparr>],
      promises = [Fulfilled (Facade 0)]\<rparr>"
  by (simp add: world_ready_def eval_defs)

lemma world_pending_eq:
  "world_pending =
     \<lparr>pyodide = None, setDebug_calls = [], worker = Some 0, runner = Some 0,
      workers = [\<lparr>ep = \<lparr>pyodideReady = Some Pending, output_sink = None,
                         load_packages = [], load_options = None, invoked = []\<rparr>,
                  creator = 0\<rparr>],
      promises = [Pending, Fulfilled (Facade 1)]\<rparr>"
  by (simp add: world_pending_def eval_defs)

lemma world_restarted_eq:
  "world_restarted =
     \<lparr>pyodide = None, setDebug_calls = [], worker = Some 1, runner = Some 1,
      workers = [\<lparr>ep = \<lparr>pyodideReady = Some (Fulfilled ()), output_sink = None,
                         load_packages = [], load_options = None, invoked = []\<rparr>,
                  creator = 0\<rparr>,
                 \<lparr>ep = \<lparr>pyodideReady = Some Pending, output_sink = None,
                         load_packages = [], load_options = None, invoked = []\<rparr>,
                  creator = 1\<rparr>],
      promises = [Fulfilled (Facade 0), Pending]\<rparr>"
  by (simp add: world_restarted_def eval_defs)

lemma world_started_eq:
  "world_started =
     \<lparr>pyodide = Some 0, setDebug_calls = [False], worker = Some 0, runner = Some 0,
      workers = [\<lparr>ep = \<lparr>pyodideReady = Some (Fulfilled ()), output_sink = None,
                         load_packages = [], load_options = None, invoked = []\<rparr>,
                  creator = 0\<rparr>],
      promises = [Fulfilled (Facade 0)]\<rparr>"
  by (simp add: world_started_def eval_defs)

lemma runPython_world_ready:
  "runPython json_engine ''dumps(xs)'' None world_ready = (Returns (Val (JStr ''[1,2,3]'')), world_ready)"
  by (simp add: world_ready_eq runPython_def runPython_w_def json_engine_def)

section \<open>The claims\<close>

text \<open>
  Claim C1. In every run in which the application reaches the client through the
  singleton module only, every call of \<^verbatim>\<open>initializePyodide\<close> or \<^verbatim>\<open>getPyodide\<close> returns
  promise 0, the promise of the one call of \<^verbatim>\<open>initializeWorker\<close>, and that promise is the
  one stored in \<^verbatim>\<open>pyodide\<close> when the call returns. After the call exactly one Worker has
  been built and \<^verbatim>\<open>initializeWorker\<close> has been called exactly once (one entry in
  \<open>workers\<close>, one in \<open>promises\<close>); a call made when the promise was already stored builds
  nothing and starts nothing. The promise is pending, rejected, or fulfilled with the
  one object of that call, so all callers resolve to the same object.
\<close>

theorem coordinator_initializes_once:
  assumes "\<forall>ev \<in> set evs. through_coordinator ev" and "is_coordinator_call c"
  shows "returned c (run evs world0) = Some 0
     \<and> pyodide (step c (run evs world0)) = Some 0
     \<and> length (workers (step c (run evs world0))) = 1
     \<and> length (promises (step c (run evs world0))) = 1
     \<and> (promises (step c (run evs world0)) ! 0 = Pending
        \<or> promises (step c (run evs world0)) ! 0 = Fulfilled (Facade 0)
        \<or> (\<exists>t. promises (step c (run evs world0)) ! 0 = Rejected t))
     \<and> (pyodide (run evs world0) \<noteq> None \<longrightarrow>
          workers (step c (run evs world0)) = workers (run evs world0)
          \<and> promises (step c (run evs world0)) = promises (run evs world0))"
proof -
  let ?w = "run evs world0"
  have inv: "single_init ?w"
    using assms(1) single_init_world0 by (rule run_single_init)
  have "through_coordinator c" using assms(2) by (cases c) simp_all
  then have inv': "single_init (step c ?w)" using inv by (rule step_single_init)
  have ret: "returned c ?w = Some 0" using assms(2) inv by (rule returned_single_init)
  have "pyodide (step c ?w) \<noteq> None"
  proof (cases "pyodide ?w")
    case None
    with inv have "worker ?w = None" "workers ?w = []" "promises ?w = []"
      by (simp_all add: single_init_def)
    with None assms(2) show ?thesis
      by (cases c) (simp_all add: first_call_pyodide)
  next
    case (Some p)
    with assms(2) show ?thesis
      by (cases c) (simp_all add: initializePyodide_started getPyodide_started)
  qed
  with inv' have started: "pyodide (step c ?w) = Some 0" "length (workers (step c ?w)) = 1"
    "length (promises (step c ?w)) = 1"
    "promises (step c ?w) ! 0 = Pending
        \<or> promises (step c ?w) ! 0 = Fulfilled (Facade 0)
        \<or> (\<exists>t. promises (step c ?w) ! 0 = Rejected t)"
    by (auto simp: single_init_def)
  have "pyodide ?w \<noteq> None \<longrightarrow>
          workers (step c ?w) = workers ?w \<and> promises (step c ?w) = promises ?w"
    using step_started(1,2) [OF assms(2)] by auto
  with ret started show ?thesis by blast
qed

text \<open>
  An instance: initialise, let the load succeed, terminate the Worker, then ask again.
\<close>

theorem coordinator_initializes_once_witness:
  "returned (CallGetPyodide None)
      (run [CallInitializePyodide None, WorkerLoadSettles load_ok, CallTerminate] world0) = Some 0
   \<and> promises (step (CallGetPyodide None)
      (run [CallInitializePyodide None, WorkerLoadSettles load_ok, CallTerminate] world0))
       = [Fulfilled (Facade 0)]
   \<and> length (workers (step (CallGetPyodide None)
      (run [CallInitializePyodide None, WorkerLoadSettles load_ok, CallTerminate] world0))) = 1"
proof -
  have evs: "\<forall>ev \<in> set [CallInitializePyodide None, WorkerLoadSettles load_ok, CallTerminate].
      through_coordinator ev" by simp
  have c: "is_coordinator_call (CallGetPyodide None)" by simp
  show ?thesis
    using coordinator_initializes_once [OF evs c] by (simp add: eval_defs)
qed

text \<open>
  Claim C2, amended. \<^verbatim>\<open>runPython\<close> fails with the error "pyodide isn't loaded yet" when
  the client has no Worker or no runner, and \<^verbatim>\<open>setOutput\<close> when it has no runner; the
  state is unchanged. That is the case before \<^verbatim>\<open>initializeWorker\<close> was ever called and
  after \<^verbatim>\<open>terminate\<close>. Once \<^verbatim>\<open>initializeWorker\<close> has built the Worker the guard is
  open, whatever has become of the load. \<^verbatim>\<open>runPython\<close> is passed to the Worker: its
  result is the result of the \<^verbatim>\<open>runPython\<close> of the worker module, and the worker module
  is left as that call leaves it; while the load is pending it waits there and changes
  nothing. \<^verbatim>\<open>setOutput\<close> is passed to the Worker and returns: the \<^verbatim>\<open>_output\<close> of the worker
  module is the given callback afterwards, and nothing else has changed.
\<close>

theorem client_guard_not_loaded:
  "(worker w = None \<or> runner w = None \<longrightarrow>
      runPython eng code gl w = (Throws (ErrorObj ''Error'' ''pyodide isn't loaded yet''), w))
   \<and> (runner w = None \<longrightarrow>
      setOutput cb w = (Throws (ErrorObj ''Error'' ''pyodide isn't loaded yet''), w))
   \<and> runPython eng code gl (terminate w) =
       (Throws (ErrorObj ''Error'' ''pyodide isn't loaded yet''), terminate w)
   \<and> setOutput cb (terminate w) =
       (Throws (ErrorObj ''Error'' ''pyodide isn't loaded yet''), terminate w)
   \<and> runPython eng code gl world0 =
       (Throws (ErrorObj ''Error'' ''pyodide isn't loaded yet''), world0)
   \<and> setOutput cb world0 =
       (Throws (ErrorObj ''Error'' ''pyodide isn't loaded yet''), world0)
   \<and> (worker w = Some wk \<and> runner w = Some wid \<and> wid < length (workers w) \<longrightarrow>
      runPython eng code gl w =
        (fst (runPython_w eng code gl (ep (workers w ! wid))),
         w\<lparr>workers := (workers w)[wid :=
              (workers w ! wid)\<lparr>ep := snd (runPython_w eng code gl (ep (workers w ! wid)))\<rparr>]\<rparr>))
   \<and> (worker w = Some wk \<and> runner w = Some wid \<and> wid < length (workers w)
        \<and> pyodideReady (ep (workers w ! wid)) = Some Pending \<longrightarrow>
      runPython eng code gl w = (Suspended, w))
   \<and> (runner w = Some wid \<and> wid < length (workers w) \<longrightarrow>
      setOutput cb w =
        (Returns (),
         w\<lparr>workers := (workers w)[wid :=
              (workers w ! wid)\<lparr>ep := (ep (workers w ! wid))\<lparr>output_sink := cb\<rparr>\<rparr>]\<rparr>))"
proof (intro conjI impI)
  assume "worker w = None \<or> runner w = None"
  then show "runPython eng code gl w =
      (Throws (ErrorObj ''Error'' ''pyodide isn't loaded yet''), w)"
    by (auto simp: runPython_def not_loaded_def new_Error_def split: option.splits)
next
  assume "runner w = None"
  then show "setOutput cb w = (Throws (ErrorObj ''Error'' ''pyodide isn't loaded yet''), w)"
    by (simp add: setOutput_def not_loaded_def new_Error_def)
next
  show "runPython eng code gl (terminate w) =
      (Throws (ErrorObj ''Error'' ''pyodide isn't loaded yet''), terminate w)"
    by (simp add: runPython_def terminate_def not_loaded_def new_Error_def)
next
  show "setOutput cb (terminate w) =
      (Throws (ErrorObj ''Error'' ''pyodide isn't loaded yet''), terminate w)"
    by (simp add: setOutput_def terminate_def not_loaded_def new_Error_def)
next
  show "runPython eng code gl world0 =
      (Throws (ErrorObj ''Error'' ''pyodide isn't loaded yet''), world0)"
    by (simp add: runPython_def world0_def not_loaded_def new_Error_def)
next
  show "setOutput cb world0 = (Throws (ErrorObj ''Error'' ''pyodide isn't loaded yet''), world0)"
    by (simp add: setOutput_def world0_def not_loaded_def new_Error_def)
next
  assume "worker w = Some wk \<and> runner w = Some wid \<and> wid < length (workers w)"
  then show "runPython eng code gl w =
        (fst (runPython_w eng code gl (ep (workers w ! wid))),
         w\<lparr>workers := (workers w)[wid :=
              (workers w ! wid)\<lparr>ep := snd (runPython_w eng code gl (ep (workers w ! wid)))\<rparr>]\<rparr>)"
    by (simp add: runPython_def split: prod.splits)
next
  assume "worker w = Some wk \<and> runner w = Some wid \<and> wid < length (workers w)
        \<and> pyodideReady (ep (workers w ! wid)) = Some Pending"
  then show "runPython eng code gl w = (Suspended, w)"
    by (simp add: runPython_def runPython_w_def)
next
  assume "runner w = Some wid \<and> wid < length (workers w)"
  then show "setOutput cb w =
        (Returns (),
         w\<lparr>workers := (workers w)[wid :=
              (workers w ! wid)\<lparr>ep := (ep (workers w ! wid))\<lparr>output_sink := cb\<rparr>\<rparr>]\<rparr>)"
    by (cases cb) (simp_all add: setOutput_def setOutput_w_def proxy_def)
qed

text \<open>
  An instance: both calls fail after \<^verbatim>\<open>terminate\<close>; while the load is pending
  \<^verbatim>\<open>runPython\<close> waits and \<^verbatim>\<open>setOutput\<close> sets the sink in the Worker; after the load
  \<^verbatim>\<open>runPython\<close> returns what the worker module returns.
\<close>

theorem client_guard_not_loaded_witness:
  "runPython json_engine ''1 + 1'' None (terminate world_ready) =
     (Throws (ErrorObj ''Error'' ''pyodide isn't loaded yet''), terminate world_ready)
   \<and> setOutput (Some (Callback 1)) (terminate world_ready) =
     (Throws (ErrorObj ''Error'' ''pyodide isn't loaded yet''), terminate world_ready)
   \<and> runPython json_engine ''1 + 1'' None world_pending = (Suspended, world_pending)
   \<and> setOutput (Some (Callback 1)) world_pending =
     (Returns (),
      world_pending\<lparr>workers :=
        [\<lparr>ep = \<lparr>pyodideReady = Some Pending, output_sink = Some (Callback 1),
                load_packages = [], load_options = None, invoked = []\<rparr>,
          creator = 0\<rparr>]\<rparr>)
   \<and> runPython json_engine ''1 + 1'' None world_ready =
     (Returns (Val (JStr ''[1,2,3]'')), world_ready)"
proof -
  have none: "worker (terminate world_ready) = None \<or> runner (terminate world_ready) = None"
    "runner (terminate world_ready) = None"
    by (simp_all add: terminate_def)
  have pending: "worker world_pending = Some 0 \<and> runner world_pending = Some 0
      \<and> 0 < length (workers world_pending)
      \<and> pyodideReady (ep (workers world_pending ! 0)) = Some Pending"
    by (simp add: world_pending_eq)
  have ready: "worker world_ready = Some 0 \<and> runner world_ready = Some 0
      \<and> 0 < length (workers world_ready)"
    by (simp add: world_ready_eq)
  note at_terminated =
    client_guard_not_loaded [of "terminate world_ready" json_engine "''1 + 1''" None
      "Some (Callback 1)" 0 0]
  note at_pending =
    client_guard_not_loaded [of world_pending json_engine "''1 + 1''" None
      "Some (Callback 1)" 0 0]
  note at_ready =
    client_guard_not_loaded [of world_ready json_engine "''1 + 1''" None
      "Some (Callback 1)" 0 0]
  have a: "runPython json_engine ''1 + 1'' None (terminate world_ready) =
     (Throws (ErrorObj ''Error'' ''pyodide isn't loaded yet''), terminate world_ready)"
    using none(1) at_terminated by blast
  have b: "setOutput (Some (Callback 1)) (terminate world_ready) =
     (Throws (ErrorObj ''Error'' ''pyodide isn't loaded yet''), terminate world_ready)"
    using none(2) at_terminated by blast
  have c: "runPython json_engine ''1 + 1'' None world_pending = (Suspended, world_pending)"
    using pending at_pending by blast
  have d0: "setOutput (Some (Callback 1)) world_pending =
     (Returns (),
      world_pending\<lparr>workers := (workers world_pending)[0 :=
        (workers world_pending ! 0)\<lparr>ep :=
          (ep (workers world_pending ! 0))\<lparr>output_sink := Some (Callback 1)\<rparr>\<rparr>]\<rparr>)"
    using pending at_pending by blast
  have d: "setOutput (Some (Callback 1)) world_pending =
     (Returns (),
      world_pending\<lparr>workers :=
        [\<lparr>ep = \<lparr>pyodideReady = Some Pending, output_sink = Some (Callback 1),
                load_packages = [], load_options = None, invoked = []\<rparr>,
          creator = 0\<rparr>]\<rparr>)"
    unfolding d0 by (simp add: world_pending_eq)
  have e0: "runPython json_engine ''1 + 1'' None world_ready =
      (fst (runPython_w json_engine ''1 + 1'' None (ep (workers world_ready ! 0))),
       world_ready\<lparr>workers := (workers world_ready)[0 :=
          (workers world_ready ! 0)\<lparr>ep :=
            snd (runPython_w json_engine ''1 + 1'' None (ep (workers world_ready ! 0)))\<rparr>]\<rparr>)"
    using ready at_ready by blast
  have e: "runPython json_engine ''1 + 1'' None world_ready =
     (Returns (Val (JStr ''[1,2,3]'')), world_ready)"
    unfolding e0 by (simp add: world_ready_eq runPython_w_def json_engine_def)
  from a b c d e show ?thesis by (intro conjI)
qed

text \<open>
  The claim as written fails while a call of \<^verbatim>\<open>initializeWorker\<close> is still pending.
  In \<open>world_pending\<close> the promise of the first call has not settled, and neither
  \<^verbatim>\<open>runPython\<close> nor \<^verbatim>\<open>setOutput\<close> throws; \<^verbatim>\<open>setOutput\<close> has even registered the sink in
  the Worker. In \<open>world_restarted\<close>, after a \<^verbatim>\<open>terminate\<close>, the promise of the new call has
  not settled, and again neither throws.
\<close>

theorem client_pending_not_guarded:
  "promises world_pending ! 0 = Pending
   \<and> fst (runPython json_engine ''1 + 1'' None world_pending) = Suspended
   \<and> fst (setOutput (Some (Callback 1)) world_pending) = Returns ()
   \<and> output_sink (ep (workers (snd (setOutput (Some (Callback 1)) world_pending)) ! 0))
       = Some (Callback 1)
   \<and> promises world_restarted ! 1 = Pending
   \<and> fst (runPython json_engine ''1 + 1'' None world_restarted) = Suspended
   \<and> fst (setOutput (Some (Callback 1)) world_restarted) = Returns ()"
  by (simp add: world_pending_eq world_restarted_eq runPython_def runPython_w_def
      setOutput_def setOutput_w_def proxy_def)

text \<open>
  Claim C3, amended. A call of \<^verbatim>\<open>initializeWorker\<close> while \<^verbatim>\<open>_worker\<close> is set is no error:
  the guard \<^verbatim>\<open>if (!_worker)\<close> skips the Worker and the call of its \<^verbatim>\<open>initialize\<close>, and the
  returned promise is fulfilled at once with a new object; nothing else changes. With
  \<^verbatim>\<open>_worker\<close> unset (at first, or after \<^verbatim>\<open>terminate\<close>) a new Worker is built and
  \<^verbatim>\<open>_worker\<close> and \<^verbatim>\<open>_runner\<close> are set. When the options carry no handler, the
  \<^verbatim>\<open>initialize\<close> of the new worker module is called with the packages and the options; it
  does not throw, the worker module is left as it leaves it, and the promise is
  pending. When the options carry a \<^verbatim>\<open>stdout\<close> or \<^verbatim>\<open>stderr\<close> handler, the call is never
  delivered: the worker module stays as it was made, and the promise is rejected with
  the \<^verbatim>\<open>DataCloneError\<close>. The \<^verbatim>\<open>initialize\<close> of the worker module itself throws
  "pyodide was already initialized" whenever \<^verbatim>\<open>_pyodideReady\<close> is set; the client never
  gets there.
\<close>

theorem initializeWorker_again:
  "(worker w = Some wk \<longrightarrow>
      initializeWorker pkgs opts w =
        (length (promises w),
         w\<lparr>promises := promises w @ [Fulfilled (Facade (length (promises w)))]\<rparr>))
   \<and> (worker w = None \<and> \<not> has_handler opts \<longrightarrow>
        initialize pkgs opts fresh_endpoint =
          Inr (fresh_endpoint\<lparr>load_packages := (case pkgs of None \<Rightarrow> [] | Some ps \<Rightarrow> ps),
                              load_options := opts, pyodideReady := Some Pending\<rparr>)
        \<and> initializeWorker pkgs opts w =
          (length (promises w),
           w\<lparr>worker := Some (length (workers w)), runner := Some (length (workers w)),
             workers := workers w @
               [\<lparr>ep = fresh_endpoint
                       \<lparr>load_packages := (case pkgs of None \<Rightarrow> [] | Some ps \<Rightarrow> ps),
                        load_options := opts, pyodideReady := Some Pending\<rparr>,
                 creator = length (promises w)\<rparr>],
             promises := promises w @ [Pending]\<rparr>))
   \<and> (worker w = None \<and> has_handler opts \<longrightarrow>
        initializeWorker pkgs opts w =
          (length (promises w),
           w\<lparr>worker := Some (length (workers w)), runner := Some (length (workers w)),
             workers := workers w @ [\<lparr>ep = fresh_endpoint, creator = length (promises w)\<rparr>],
             promises := promises w @ [Rejected data_clone_error]\<rparr>))
   \<and> (pyodideReady e \<noteq> None \<longrightarrow>
        initialize pkgs' opts' e = Inl (ErrorObj ''Error'' ''pyodide was already initialized''))"
proof (intro conjI impI)
  assume "worker w = Some wk"
  then show "initializeWorker pkgs opts w =
        (length (promises w),
         w\<lparr>promises := promises w @ [Fulfilled (Facade (length (promises w)))]\<rparr>)"
    by (simp add: initializeWorker_def Let_def)
next
  assume "worker w = None \<and> \<not> has_handler opts"
  show "initialize pkgs opts fresh_endpoint =
          Inr (fresh_endpoint\<lparr>load_packages := (case pkgs of None \<Rightarrow> [] | Some ps \<Rightarrow> ps),
                              load_options := opts, pyodideReady := Some Pending\<rparr>)"
    by (rule initialize_fresh)
next
  assume a: "worker w = None \<and> \<not> has_handler opts"
  let ?proxied = "case opts of
        None \<Rightarrow> None
      | Some os \<Rightarrow>
          Some \<lparr>stdout = map_option proxy (stdout os), stderr = map_option proxy (stderr os)\<rparr>"
  from a have same: "?proxied = opts"
    by (cases opts) (simp_all add: has_handler_def)
  from a have "\<not> has_handler ?proxied" unfolding same by simp
  with a show "initializeWorker pkgs opts w =
          (length (promises w),
           w\<lparr>worker := Some (length (workers w)), runner := Some (length (workers w)),
             workers := workers w @
               [\<lparr>ep = fresh_endpoint
                       \<lparr>load_packages := (case pkgs of None \<Rightarrow> [] | Some ps \<Rightarrow> ps),
                        load_options := opts, pyodideReady := Some Pending\<rparr>,
                 creator = length (promises w)\<rparr>],
             promises := promises w @ [Pending]\<rparr>)"
    unfolding initializeWorker_def Let_def same
    by (simp add: remote_initialize_def initialize_fresh)
next
  assume a: "worker w = None \<and> has_handler opts"
  then have "has_handler (case opts of
        None \<Rightarrow> None
      | Some os \<Rightarrow>
          Some \<lparr>stdout = map_option proxy (stdout os), stderr = map_option proxy (stderr os)\<rparr>)"
    by (cases opts) (auto simp: has_handler_def)
  with a show "initializeWorker pkgs opts w =
          (length (promises w),
           w\<lparr>worker := Some (length (workers w)), runner := Some (length (workers w)),
             workers := workers w @ [\<lparr>ep = fresh_endpoint, creator = length (promises w)\<rparr>],
             promises := promises w @ [Rejected data_clone_error]\<rparr>)"
    by (simp add: initializeWorker_def Let_def remote_initialize_def)
next
  assume "pyodideReady e \<noteq> None"
  then show "initialize pkgs' opts' e = Inl (ErrorObj ''Error'' ''pyodide was already initialized'')"
    by (simp add: initialize_def new_Error_def)
qed

text \<open>
  An instance of each case: a second call once the Worker has loaded; a first call with
  packages and no handler; a first call with a \<^verbatim>\<open>stdout\<close> handler; and the \<^verbatim>\<open>initialize\<close> of
  a worker module that has loaded.
\<close>

theorem initializeWorker_again_witness:
  "initializeWorker (Some [''numpy'']) None world_ready =
     (1, world_ready\<lparr>promises := [Fulfilled (Facade 0), Fulfilled (Facade 1)]\<rparr>)
   \<and> initializeWorker (Some [''numpy'']) None world0 =
     (0, world0\<lparr>worker := Some 0, runner := Some 0,
          workers := [\<lparr>ep = fresh_endpoint\<lparr>load_packages := [''numpy''], load_options := None,
                                            pyodideReady := Some Pending\<rparr>,
                       creator = 0\<rparr>],
          promises := [Pending]\<rparr>)
   \<and> initializeWorker None (Some \<lparr>stdout = Some (Callback 1), stderr = None\<rparr>) world0 =
     (0, world0\<lparr>worker := Some 0, runner := Some 0,
          workers := [\<lparr>ep = fresh_endpoint, creator = 0\<rparr>],
          promises := [Rejected data_clone_error]\<rparr>)
   \<and> initialize (Some [''numpy'']) None (ep (workers world_ready ! 0)) =
       Inl (ErrorObj ''Error'' ''pyodide was already initialized'')"
proof -
  have a: "initializeWorker (Some [''numpy'']) None world_ready =
     (1, world_ready\<lparr>promises := [Fulfilled (Facade 0), Fulfilled (Facade 1)]\<rparr>)"
    and d: "initialize (Some [''numpy'']) None (ep (workers world_ready ! 0)) =
       Inl (ErrorObj ''Error'' ''pyodide was already initialized'')"
    using initializeWorker_again [of world_ready 0 "Some [''numpy'']" None
        "ep (workers world_ready ! 0)" "Some [''numpy'']" None]
    by (simp_all add: world_ready_eq)
  have b: "initializeWorker (Some [''numpy'']) None world0 =
     (0, world0\<lparr>worker := Some 0, runner := Some 0,
          workers := [\<lparr>ep = fresh_endpoint\<lparr>load_packages := [''numpy''], load_options := None,
                                            pyodideReady := Some Pending\<rparr>,
                       creator = 0\<rparr>],
          promises := [Pending]\<rparr>)"
    using initializeWorker_again [of world0 0 "Some [''numpy'']" None fresh_endpoint None None]
    by (simp add: world0_def has_handler_def)
  have c: "initializeWorker None (Some \<lparr>stdout = Some (Callback 1), stderr = None\<rparr>) world0 =
     (0, world0\<lparr>worker := Some 0, runner := Some 0,
          workers := [\<lparr>ep = fresh_endpoint, creator = 0\<rparr>],
          promises := [Rejected data_clone_error]\<rparr>)"
    using initializeWorker_again [of world0 0 None
        "Some \<lparr>stdout = Some (Callback 1), stderr = None\<rparr>" fresh_endpoint None None]
    by (simp add: world0_def has_handler_def)
  from a b c d show ?thesis by (intro conjI)
qed

text \<open>
  The claim as written fails: in \<open>world_ready\<close> the first call has resolved, and the
  second call returns promise 1, which is fulfilled, not rejected; the Worker is
  untouched.
\<close>

theorem initializeWorker_again_fulfilled:
  "fst (initializeWorker None None world_ready) = 1
   \<and> promises (snd (initializeWorker None None world_ready)) ! 1 = Fulfilled (Facade 1)
   \<and> workers (snd (initializeWorker None None world_ready)) = workers world_ready"
  by (simp add: world_ready_eq initializeWorker_def Let_def)

text \<open>
  Claim C4. When \<^verbatim>\<open>_pyodideReady\<close> lets \<^verbatim>\<open>runPython\<close> pass, the globals convert, and the
  evaluation throws an \<^verbatim>\<open>Error\<close> with message \<open>message\<close>, then \<^verbatim>\<open>runPython\<close> throws a new
  \<^verbatim>\<open>Error\<close> whose message \<open>m\<close> is made of the lines of \<open>message\<close> that do not contain
  \<^verbatim>\<open>File "<exec>"\<close>, in their order, joined by newlines: the lines of \<open>m\<close> are exactly
  those lines (and \<open>m\<close> is empty when none is left). Before it throws, it has called
  \<^verbatim>\<open>_output\<close> with \<open>m\<close> if a sink is set, and has done nothing else.
\<close>

theorem runPython_w_cleans_error:
  assumes ready: "pyodideReady e = None \<or> pyodideReady e = Some (Fulfilled ())"
    and conv: "(gl = None \<and> opts = None) \<or> (\<exists>g py. gl = Some g \<and> toPy eng g = Inr py \<and> opts = Some py)"
    and err: "runPythonAsync eng code opts = Inl (ErrorObj n message)"
  shows "\<exists>m. runPython_w eng code gl e =
            (Throws (ErrorObj ''Error'' m),
             (case output_sink e of
                None \<Rightarrow> e
              | Some g \<Rightarrow> e\<lparr>invoked := invoked e @ [(ViaOutput, g, m)]\<rparr>))
          \<and> (let kept = filter (\<lambda>l. \<not> sublist exec_marker l) (js_split newline message)
             in m = js_join [newline] kept
                \<and> (if kept = [] then m = [] else js_split newline m = kept))"
proof -
  let ?kept = "filter (\<lambda>l. \<not> sublist exec_marker l) (js_split newline message)"
  have nosep: "\<forall>l \<in> set ?kept. newline \<notin> set l"
    by (auto dest: js_split_no_sep)
  have "?kept \<noteq> [] \<Longrightarrow> js_split newline (js_join [newline] ?kept) = ?kept"
    using nosep by (rule js_split_join [rotated])
  then show ?thesis
    using runPython_w_catch [OF ready conv err]
    by (auto simp: Let_def new_Error_def invoke_def split: option.splits)
qed

text \<open>
  An instance: a Python traceback of three lines loses its middle line.
\<close>

theorem runPython_w_cleans_error_witness:
  \<open>runPython_w traceback_engine ''x'' None endpoint_ready =
     (Throws (ErrorObj ''Error''
        (''Traceback (most recent call last):'' @ [newline] @
         ''NameError: name 'x' is not defined'')),
      endpoint_ready\<lparr>invoked :=
        [(ViaOutput, Callback 1,
          ''Traceback (most recent call last):'' @ [newline] @
          ''NameError: name 'x' is not defined'')]\<rparr>)\<close>
proof -
  have ready: "pyodideReady endpoint_ready = None \<or> pyodideReady endpoint_ready = Some (Fulfilled ())"
    by (simp add: endpoint_ready_def)
  have conv: "((None :: globals option) = None \<and> (None :: pyobj option) = None)
      \<or> (\<exists>g py. (None :: globals option) = Some g \<and> toPy traceback_engine g = Inr py \<and> (None :: pyobj option) = Some py)"
    by simp
  have err: \<open>runPythonAsync traceback_engine ''x'' None = Inl (ErrorObj ''PythonError''
        (''Traceback (most recent call last):'' @ [newline] @
         ''  File "<exec>", line 1, in <module>'' @ [newline] @
         ''NameError: name 'x' is not defined''))\<close>
    by (simp add: traceback_engine_def)
  show ?thesis
    using runPython_w_cleans_error [OF ready conv err]
    by (simp add: endpoint_ready_def newline_def exec_marker_def js_includes_sublist [symmetric])
qed

text \<open>
  Claim C5. Take a run through the singleton module in which the one initialization has
  failed, however it failed: the promise of \<^verbatim>\<open>initializeWorker\<close> is rejected with \<open>t\<close>
  (which is what a call rejected with the \<^verbatim>\<open>DataCloneError\<close> gives), or the load in the
  Worker is: its \<^verbatim>\<open>_pyodideReady\<close> is rejected with \<open>t\<close>. Then the stored promise is promise 0
  and is rejected with \<open>t\<close>, and this stays so whatever happens next: after every further
  run \<open>evs2\<close> the promise table is still the one rejected promise, there is still one
  Worker, and every call of \<^verbatim>\<open>initializePyodide\<close> or \<^verbatim>\<open>getPyodide\<close> returns promise 0 and
  starts nothing.
\<close>

theorem coordinator_failure_permanent:
  assumes reach: "\<forall>ev \<in> set evs. through_coordinator ev"
    and failed:
      "(\<exists>p < length (promises (run evs world0)). promises (run evs world0) ! p = Rejected t)
       \<or> (\<exists>wid < length (workers (run evs world0)).
             pyodideReady (ep (workers (run evs world0) ! wid)) = Some (Rejected t))"
    and later: "\<forall>ev \<in> set evs2. through_coordinator ev"
    and call: "is_coordinator_call c"
  shows "pyodide (run evs2 (run evs world0)) = Some 0
     \<and> promises (run evs2 (run evs world0)) = [Rejected t]
     \<and> length (workers (run evs2 (run evs world0))) = 1
     \<and> returned c (run evs2 (run evs world0)) = Some 0
     \<and> promises (step c (run evs2 (run evs world0))) = [Rejected t]
     \<and> length (workers (step c (run evs2 (run evs world0)))) = 1"
proof -
  let ?w = "run evs world0"
  let ?w2 = "run evs2 ?w"
  have inv: "single_init ?w"
    using reach single_init_world0 by (rule run_single_init)
  have "pyodide ?w = Some 0 \<and> promises ?w ! 0 = Rejected t"
    using failed
  proof
    assume "\<exists>p < length (promises ?w). promises ?w ! p = Rejected t"
    then obtain p where "p < length (promises ?w)" "promises ?w ! p = Rejected t" by blast
    with inv show ?thesis by (auto simp: single_init_def)
  next
    assume "\<exists>wid < length (workers ?w). pyodideReady (ep (workers ?w ! wid)) = Some (Rejected t)"
    then obtain wid where "wid < length (workers ?w)"
      "pyodideReady (ep (workers ?w ! wid)) = Some (Rejected t)" by blast
    with inv show ?thesis by (auto simp: single_init_def)
  qed
  then have st: "pyodide ?w = Some 0" and p0: "promises ?w ! 0 = Rejected t" by simp_all
  from run_rejected [OF later inv p0 st]
  have rej: "promises ?w2 ! 0 = Rejected t"
    and st2: "pyodide ?w2 = Some 0" and inv2: "single_init ?w2"
    by simp_all
  from inv2 st2 have len: "length (workers ?w2) = 1" "length (promises ?w2) = Suc 0"
    by (auto simp: single_init_def)
  from len(2) rej have ps: "promises ?w2 = [Rejected t]"
    by (auto dest: length_one_nth)
  have ret: "returned c ?w2 = Some 0" using call inv2 by (rule returned_single_init)
  from step_started(1,2) [OF call st2] ps len
  have "promises (step c ?w2) = [Rejected t]" "length (workers (step c ?w2)) = 1"
    by simp_all
  with st2 ps len ret show ?thesis by simp
qed

text \<open>
  Two instances. The load fails, and two later calls and a \<^verbatim>\<open>terminate\<close> change nothing.
  The first call passes a \<^verbatim>\<open>stdout\<close> handler and is rejected with the \<^verbatim>\<open>DataCloneError\<close>,
  and the same later events change nothing.
\<close>

theorem coordinator_failure_permanent_witness:
  "pyodideReady (ep (workers (run [CallInitializePyodide None, WorkerLoadSettles load_failure] world0) ! 0))
     = Some (Rejected (ErrorObj ''Error'' ''Failed to fetch''))
   \<and> returned (CallInitializePyodide (Some debug_on))
       (run [CallGetPyodide None, CallTerminate]
         (run [CallInitializePyodide None, WorkerLoadSettles load_failure] world0)) = Some 0
   \<and> promises (step (CallInitializePyodide (Some debug_on))
       (run [CallGetPyodide None, CallTerminate]
         (run [CallInitializePyodide None, WorkerLoadSettles load_failure] world0)))
       = [Rejected (ErrorObj ''Error'' ''Failed to fetch'')]
   \<and> promises (run [CallInitializePyodide (Some with_stdout)] world0)
       = [Rejected data_clone_error]
   \<and> pyodideReady (ep (workers (run [CallInitializePyodide (Some with_stdout)] world0) ! 0))
       = None
   \<and> returned (CallInitializePyodide (Some debug_on))
       (run [CallGetPyodide None, CallTerminate]
         (run [CallInitializePyodide (Some with_stdout)] world0)) = Some 0
   \<and> promises (step (CallInitializePyodide (Some debug_on))
       (run [CallGetPyodide None, CallTerminate]
         (run [CallInitializePyodide (Some with_stdout)] world0)))
       = [Rejected data_clone_error]"
proof -
  have evs: "\<forall>ev \<in> set [CallInitializePyodide None, WorkerLoadSettles load_failure].
      through_coordinator ev" by simp
  have evs': "\<forall>ev \<in> set [CallInitializePyodide (Some with_stdout)]. through_coordinator ev"
    by simp
  have evs2: "\<forall>ev \<in> set [CallGetPyodide None, CallTerminate]. through_coordinator ev" by simp
  have c: "is_coordinator_call (CallInitializePyodide (Some debug_on))" by simp
  have load: "pyodideReady (ep (workers (run [CallInitializePyodide None, WorkerLoadSettles load_failure] world0) ! 0))
     = Some (Rejected (ErrorObj ''Error'' ''Failed to fetch''))"
    and len: "0 < length (workers (run [CallInitializePyodide None, WorkerLoadSettles load_failure] world0))"
    by (simp_all add: eval_defs)
  then have failed: "(\<exists>p < length (promises (run [CallInitializePyodide None, WorkerLoadSettles load_failure] world0)).
        promises (run [CallInitializePyodide None, WorkerLoadSettles load_failure] world0) ! p
          = Rejected (ErrorObj ''Error'' ''Failed to fetch''))
       \<or> (\<exists>wid < length (workers (run [CallInitializePyodide None, WorkerLoadSettles load_failure] world0)).
             pyodideReady (ep (workers (run [CallInitializePyodide None, WorkerLoadSettles load_failure] world0) ! wid))
               = Some (Rejected (ErrorObj ''Error'' ''Failed to fetch'')))"
    by blast
  have clone: "promises (run [CallInitializePyodide (Some with_stdout)] world0)
       = [Rejected data_clone_error]"
    and idle: "pyodideReady (ep (workers (run [CallInitializePyodide (Some with_stdout)] world0) ! 0))
       = None"
    by (simp_all add: eval_defs with_stdout_def)
  then have failed': "(\<exists>p < length (promises (run [CallInitializePyodide (Some with_stdout)] world0)).
        promises (run [CallInitializePyodide (Some with_stdout)] world0) ! p
          = Rejected data_clone_error)
       \<or> (\<exists>wid < length (workers (run [CallInitializePyodide (Some with_stdout)] world0)).
             pyodideReady (ep (workers (run [CallInitializePyodide (Some with_stdout)] world0) ! wid))
               = Some (Rejected data_clone_error))"
    by simp
  from coordinator_failure_permanent [OF evs failed evs2 c]
    coordinator_failure_permanent [OF evs' failed' evs2 c] load clone idle
  show ?thesis by simp
qed

text \<open>
  Claim C6. Once \<^verbatim>\<open>pyodide\<close> is set, a call of \<^verbatim>\<open>initializePyodide\<close> is not rejected: it
  returns the stored promise, and every variable and object of the three modules is as
  it was, whatever the options. The options \<^verbatim>\<open>packages\<close>, \<^verbatim>\<open>stdout\<close> and \<^verbatim>\<open>stderr\<close> are
  not used at all. The option \<^verbatim>\<open>debug\<close> (false when absent) is the argument of one more
  call of \<^verbatim>\<open>setDebug\<close>, which is all the call does. \<^verbatim>\<open>getPyodide\<close> returns the stored
  promise and does nothing. The calls made to \<^verbatim>\<open>setDebug\<close> are read by nothing: whatever
  they were, every event leaves the three modules in the same state, and every
  function returns the same.
\<close>

theorem initializePyodide_later_call:
  "(pyodide w = Some p \<longrightarrow>
      initializePyodide options w =
        (p, w\<lparr>setDebug_calls := setDebug_calls w @
               [case options of
                  None \<Rightarrow> False
                | Some c \<Rightarrow> (case debug c of None \<Rightarrow> False | Some d \<Rightarrow> d)]\<rparr>)
      \<and> (snd (initializePyodide options w))\<lparr>setDebug_calls := setDebug_calls w\<rparr> = w
      \<and> getPyodide os w = (p, w))
   \<and> (step ev (w\<lparr>setDebug_calls := xs\<rparr>))\<lparr>setDebug_calls := []\<rparr>
       = (step ev w)\<lparr>setDebug_calls := []\<rparr>
   \<and> returned ev (w\<lparr>setDebug_calls := xs\<rparr>) = returned ev w
   \<and> fst (initializeWorker pkgs opts (w\<lparr>setDebug_calls := xs\<rparr>))
       = fst (initializeWorker pkgs opts w)
   \<and> fst (runPython eng code gl (w\<lparr>setDebug_calls := xs\<rparr>)) = fst (runPython eng code gl w)
   \<and> fst (runPythonJson JSON_parse eng code gl (w\<lparr>setDebug_calls := xs\<rparr>))
       = fst (runPythonJson JSON_parse eng code gl w)
   \<and> fst (setOutput cb (w\<lparr>setDebug_calls := xs\<rparr>)) = fst (setOutput cb w)"
proof (intro conjI impI)
  assume "pyodide w = Some p"
  then show "initializePyodide options w =
        (p, w\<lparr>setDebug_calls := setDebug_calls w @
               [case options of
                  None \<Rightarrow> False
                | Some c \<Rightarrow> (case debug c of None \<Rightarrow> False | Some d \<Rightarrow> d)]\<rparr>)"
    by (rule initializePyodide_started)
next
  assume "pyodide w = Some p"
  then show "(snd (initializePyodide options w))\<lparr>setDebug_calls := setDebug_calls w\<rparr> = w"
    by (simp add: initializePyodide_started)
next
  assume "pyodide w = Some p"
  then show "getPyodide os w = (p, w)" by (rule getPyodide_started)
next
  show "(step ev (w\<lparr>setDebug_calls := xs\<rparr>))\<lparr>setDebug_calls := []\<rparr>
       = (step ev w)\<lparr>setDebug_calls := []\<rparr>"
    by (rule step_setDebug)
next
  show "returned ev (w\<lparr>setDebug_calls := xs\<rparr>) = returned ev w"
    by (rule returned_setDebug)
next
  show "fst (initializeWorker pkgs opts (w\<lparr>setDebug_calls := xs\<rparr>))
       = fst (initializeWorker pkgs opts w)"
    by (simp add: initializeWorker_setDebug)
next
  show "fst (runPython eng code gl (w\<lparr>setDebug_calls := xs\<rparr>)) = fst (runPython eng code gl w)"
    by (simp add: runPython_setDebug)
next
  show "fst (runPythonJson JSON_parse eng code gl (w\<lparr>setDebug_calls := xs\<rparr>))
       = fst (runPythonJson JSON_parse eng code gl w)"
    by (simp add: runPythonJson_def runPython_setDebug split: prod.splits completion.splits
        sum.splits)
next
  show "fst (setOutput cb (w\<lparr>setDebug_calls := xs\<rparr>)) = fst (setOutput cb w)"
    by (simp add: setOutput_setDebug)
qed

text \<open>
  An instance: a later call with packages, a stdout handler and \<^verbatim>\<open>debug: true\<close> returns
  promise 0 and leaves everything as it was but for the call \<^verbatim>\<open>setDebug(true)\<close>.
\<close>

theorem initializePyodide_later_call_witness:
  "initializePyodide
     (Some \<lparr>stdout = Some (Callback 1), stderr = None, debug = Some True,
            packages = Some [''numpy'']\<rparr>) world_started
     = (0, world_started\<lparr>setDebug_calls := [False, True]\<rparr>)
   \<and> getPyodide (Some \<lparr>stdout = Some (Callback 1), stderr = None\<rparr>) world_started
       = (0, world_started)"
proof -
  have started: "pyodide world_started = Some 0" by (simp add: world_started_eq)
  have calls: "setDebug_calls world_started = [False]" by (simp add: world_started_eq)
  from initializePyodide_later_call [of world_started 0
      "Some \<lparr>stdout = Some (Callback 1), stderr = None, debug = Some True,
             packages = Some [''numpy'']\<rparr>" "Some \<lparr>stdout = Some (Callback 1), stderr = None\<rparr>"]
    started calls
  show ?thesis by simp
qed

text \<open>
  Claim C7, amended. The test of the \<^verbatim>\<open>catch\<close> block is \<^verbatim>\<open>err instanceof Error\<close>. When the
  evaluation throws a value that is not an instance of \<^verbatim>\<open>Error\<close>, \<^verbatim>\<open>runPython\<close> throws
  that same value, and the state of the worker module is unchanged: no message is
  cleaned and no sink is called. When it throws an instance of \<^verbatim>\<open>Error\<close>, of whatever
  name, the engine's own or another, \<^verbatim>\<open>runPython\<close> throws a new plain \<^verbatim>\<open>Error\<close> with the
  cleaned message, after calling \<^verbatim>\<open>_output\<close> with that message if a sink is set.
\<close>

theorem runPython_w_rethrows_other:
  assumes ready: "pyodideReady e = None \<or> pyodideReady e = Some (Fulfilled ())"
    and conv: "(gl = None \<and> opts = None) \<or> (\<exists>g py. gl = Some g \<and> toPy eng g = Inr py \<and> opts = Some py)"
    and err: "runPythonAsync eng code opts = Inl t"
  shows "(\<not> instanceof_Error t \<longrightarrow> runPython_w eng code gl e = (Throws t, e))
     \<and> (\<forall>n message. t = ErrorObj n message \<longrightarrow>
          runPython_w eng code gl e =
            (Throws (ErrorObj ''Error''
               (js_join [newline]
                  (filter (\<lambda>l. \<not> sublist exec_marker l) (js_split newline message)))),
             (case output_sink e of
                None \<Rightarrow> e
              | Some g \<Rightarrow>
                  e\<lparr>invoked := invoked e @
                     [(ViaOutput, g,
                       js_join [newline]
                         (filter (\<lambda>l. \<not> sublist exec_marker l)
                            (js_split newline message)))]\<rparr>)))"
  using runPython_w_catch [OF ready conv err]
  by (cases t) (auto simp: Let_def new_Error_def invoke_def split: option.splits)

text \<open>
  An instance of each part: the evaluation throws a string, which comes out as it is;
  it throws a \<^verbatim>\<open>PythonError\<close>, which comes out as a plain \<^verbatim>\<open>Error\<close> without the marker
  line.
\<close>

theorem runPython_w_rethrows_other_witness:
  \<open>runPython_w string_thrower ''raise'' None endpoint_ready =
     (Throws (NonError (Val (JStr ''boom''))), endpoint_ready)
   \<and> runPython_w traceback_engine ''x'' None endpoint_plain =
     (Throws (ErrorObj ''Error''
        (''Traceback (most recent call last):'' @ [newline] @
         ''NameError: name 'x' is not defined'')),
      endpoint_plain\<lparr>invoked :=
        [(ViaOutput, Callback 1,
          ''Traceback (most recent call last):'' @ [newline] @
          ''NameError: name 'x' is not defined'')]\<rparr>)\<close>
proof -
  have ready: "pyodideReady endpoint_ready = None \<or> pyodideReady endpoint_ready = Some (Fulfilled ())"
    "pyodideReady endpoint_plain = None \<or> pyodideReady endpoint_plain = Some (Fulfilled ())"
    by (simp_all add: endpoint_ready_def endpoint_plain_def)
  have conv: "((None :: globals option) = None \<and> (None :: pyobj option) = None)
      \<or> (\<exists>g py. (None :: globals option) = Some g \<and> toPy eng g = Inr py \<and> (None :: pyobj option) = Some py)"
    for eng :: engine by simp
  have err: "runPythonAsync string_thrower ''raise'' None = Inl (NonError (Val (JStr ''boom'')))"
    by (simp add: string_thrower_def)
  have err': \<open>runPythonAsync traceback_engine ''x'' None = Inl (ErrorObj ''PythonError''
        (''Traceback (most recent call last):'' @ [newline] @
         ''  File "<exec>", line 1, in <module>'' @ [newline] @
         ''NameError: name 'x' is not defined''))\<close>
    by (simp add: traceback_engine_def)
  have a: "runPython_w string_thrower ''raise'' None endpoint_ready =
     (Throws (NonError (Val (JStr ''boom''))), endpoint_ready)"
    using runPython_w_rethrows_other [OF ready(1) conv err] by simp
  have b: \<open>runPython_w traceback_engine ''x'' None endpoint_plain =
     (Throws (ErrorObj ''Error''
        (''Traceback (most recent call last):'' @ [newline] @
         ''NameError: name 'x' is not defined'')),
      endpoint_plain\<lparr>invoked :=
        [(ViaOutput, Callback 1,
          ''Traceback (most recent call last):'' @ [newline] @
          ''NameError: name 'x' is not defined'')]\<rparr>)\<close>
    using runPython_w_rethrows_other [OF ready(2) conv err']
    by (simp add: endpoint_plain_def newline_def exec_marker_def js_includes_sublist [symmetric])
  from a b show ?thesis by (intro conjI)
qed

text \<open>
  The claim as written fails for an \<^verbatim>\<open>Error\<close> that is not the engine's own. A
  \<^verbatim>\<open>TypeError\<close> thrown during the evaluation does not come out as it is: what is thrown
  is a plain \<^verbatim>\<open>Error\<close>, its message has lost the marker line, and the sink was called.
\<close>

theorem runPython_w_cleans_type_error:
  \<open>runPython_w type_error_engine ''f()'' None endpoint_plain =
     (Throws (ErrorObj ''Error'' ''f is not a function''),
      endpoint_plain\<lparr>invoked := [(ViaOutput, Callback 1, ''f is not a function'')]\<rparr>)
   \<and> runPython_w type_error_engine ''f()'' None endpoint_plain \<noteq>
     (Throws (ErrorObj ''TypeError''
        (''f is not a function'' @ [newline] @ ''  File "<exec>", line 2'')),
      endpoint_plain)\<close>
  by (simp add: runPython_w_def type_error_engine_def endpoint_plain_def newline_def
      exec_marker_def invoke_def new_Error_def Let_def)

text \<open>
  Claim C8. When \<^verbatim>\<open>runPython\<close> has returned \<open>result\<close>: if \<open>result\<close> is \<^verbatim>\<open>undefined\<close>,
  \<^verbatim>\<open>null\<close> or the empty string, \<^verbatim>\<open>runPythonJson\<close> returns \<^verbatim>\<open>null\<close>; if it is a non-empty
  string, \<^verbatim>\<open>runPythonJson\<close> returns what \<^verbatim>\<open>JSON.parse\<close> returns for it, and throws what
  \<^verbatim>\<open>JSON.parse\<close> throws.
\<close>

theorem runPythonJson_parses:
  assumes "runPython eng code gl w = (Returns result, w1)"
  shows "(result = Undefined \<or> result = Val JNull \<or> result = Val (JStr []) \<longrightarrow>
            runPythonJson JSON_parse eng code gl w = (Returns JNull, w1))
     \<and> (\<forall>s js. result = Val (JStr s) \<and> s \<noteq> [] \<and> JSON_parse result = Inr js \<longrightarrow>
            runPythonJson JSON_parse eng code gl w = (Returns js, w1))
     \<and> (\<forall>s t. result = Val (JStr s) \<and> s \<noteq> [] \<and> JSON_parse result = Inl t \<longrightarrow>
            runPythonJson JSON_parse eng code gl w = (Throws t, w1))"
  using assms by (auto simp: runPythonJson_def)

text \<open>
  An instance: the text of a list of three numbers is parsed.
\<close>

theorem runPythonJson_parses_witness:
  "runPythonJson parse_numbers json_engine ''dumps(xs)'' None world_ready =
     (Returns (JArr [JNum 1, JNum 2, JNum 3]), world_ready)"
  using runPythonJson_parses [OF runPython_world_ready, of parse_numbers]
  by (simp add: parse_numbers_def)

text \<open>
  Claim C9. \<^verbatim>\<open>setOutput(cb)\<close> changes \<^verbatim>\<open>_output\<close> and nothing else. After it, and until
  \<^verbatim>\<open>setOutput\<close> is called again, \<^verbatim>\<open>_output\<close> is \<open>cb\<close>, and every call the worker module makes
  through \<^verbatim>\<open>_output\<close> goes to \<open>cb\<close>: none goes to a sink registered before, and none is
  made at all when \<open>cb\<close> is \<^verbatim>\<open>null\<close>. The only other calls to callbacks are those to the
  \<^verbatim>\<open>stdout\<close> and \<^verbatim>\<open>stderr\<close> handlers that were given to \<^verbatim>\<open>initialize\<close>: those the worker
  module held before the \<^verbatim>\<open>setOutput\<close>, or those of the first \<^verbatim>\<open>initialize\<close> after it when
  there was none before. They are a separate route and not the registered sink, and
  \<^verbatim>\<open>setOutput\<close> has no part in them.
\<close>

theorem setOutput_w_replaces:
  assumes "\<forall>ev \<in> set evs. \<not> is_ESetOutput ev"
  shows "setOutput_w cb e = e\<lparr>output_sink := cb\<rparr>
     \<and> (\<exists>new. invoked (ep_run evs (setOutput_w cb e)) = invoked e @ new
          \<and> output_sink (ep_run evs (setOutput_w cb e)) = cb
          \<and> (\<forall>r c m. (r, c, m) \<in> set new \<longrightarrow>
                r = ViaOutput \<and> cb = Some c
                \<or> r = ViaOptions
                  \<and> (\<exists>os. handlers_given e evs = Some os
                          \<and> (stdout os = Some c \<or> stderr os = Some c))))"
proof -
  have same: "handlers_given (setOutput_w cb e) evs = handlers_given e evs"
    by (simp add: handlers_given_def setOutput_w_def)
  from ep_run_delivers [OF assms, of "setOutput_w cb e"] obtain new where
    "invoked (ep_run evs (setOutput_w cb e)) = invoked e @ new"
    "output_sink (ep_run evs (setOutput_w cb e)) = cb"
    "\<forall>d \<in> set new. delivery_ok cb (handlers_given e evs) d"
    unfolding same by (auto simp: setOutput_w_def)
  then have "\<exists>new. invoked (ep_run evs (setOutput_w cb e)) = invoked e @ new
          \<and> output_sink (ep_run evs (setOutput_w cb e)) = cb
          \<and> (\<forall>r c m. (r, c, m) \<in> set new \<longrightarrow>
                r = ViaOutput \<and> cb = Some c
                \<or> r = ViaOptions
                  \<and> (\<exists>os. handlers_given e evs = Some os
                          \<and> (stdout os = Some c \<or> stderr os = Some c)))"
    by (intro exI [of _ new]) (auto simp: delivery_ok_def)
  then show ?thesis by (simp add: setOutput_w_def)
qed

text \<open>
  Instances. On a worker module with no handlers, sink 1 is replaced by none and two
  lines are written: no callback is called; it is replaced by sink 2: only sink 2 is
  called. On one that was given the stdout handler 9, sink 1 is replaced by sink 2:
  handler 9 and sink 2 are called, sink 1 is not.
\<close>

theorem setOutput_w_replaces_witness:
  "invoked (ep_run [EStdout ''a'', EStderr ''b''] (setOutput_w None endpoint_plain)) = []
   \<and> invoked (ep_run [EStdout ''a'', EStderr ''b''] (setOutput_w (Some (Callback 2)) endpoint_plain))
     = [(ViaOutput, Callback 2, ''a''), (ViaOutput, Callback 2, ''b'')]
   \<and> invoked (ep_run [EStdout ''a'', EStderr ''b''] (setOutput_w (Some (Callback 2)) endpoint_ready))
     = [(ViaOptions, Callback 9, ''a''), (ViaOutput, Callback 2, ''a''),
        (ViaOutput, Callback 2, ''b'')]
   \<and> invoked (ep_run [EStdout ''a'', EStderr ''b''] (setOutput_w None endpoint_ready))
     = [(ViaOptions, Callback 9, ''a'')]"
proof -
  have evs: "\<forall>ev \<in> set [EStdout ''a'', EStderr ''b'']. \<not> is_ESetOutput ev" by simp
  show ?thesis
    using setOutput_w_replaces [OF evs, of None endpoint_plain]
      setOutput_w_replaces [OF evs, of "Some (Callback 2)" endpoint_plain]
      setOutput_w_replaces [OF evs, of "Some (Callback 2)" endpoint_ready]
      setOutput_w_replaces [OF evs, of None endpoint_ready]
    by (simp add: endpoint_ready_def endpoint_plain_def setOutput_w_def stdout_handler_def
        stderr_handler_def invoke_def Let_def)
qed

text \<open>
  Claim C10. When a call of \<^verbatim>\<open>initialize\<close> has returned, \<^verbatim>\<open>_pyodideReady\<close> is already set
  (to the pending promise), and after any events whatever, the load failing among them,
  every further call of \<^verbatim>\<open>initialize\<close> throws "pyodide was already initialized".
\<close>

theorem initialize_only_once:
  assumes first: "initialize pkgs opts e = Inr e1"
  shows "pyodideReady e1 = Some Pending
     \<and> (\<forall>evs pkgs' opts'.
           initialize pkgs' opts' (ep_run evs e1) = Inl (ErrorObj ''Error'' ''pyodide was already initialized''))"
proof -
  from first have p: "pyodideReady e1 = Some Pending"
    by (auto simp: initialize_def priv_loadPyodide_def split: if_splits)
  then have "pyodideReady e1 \<noteq> None" by simp
  then have "pyodideReady (ep_run evs e1) \<noteq> None" for evs by (rule ep_run_ready)
  then show ?thesis using p by (simp add: initialize_def new_Error_def)
qed

text \<open>
  An instance: the load fails, and \<^verbatim>\<open>initialize\<close> still throws.
\<close>

theorem initialize_only_once_witness:
  "initialize None None fresh_endpoint =
     Inr (fresh_endpoint\<lparr>load_packages := [], load_options := None, pyodideReady := Some Pending\<rparr>)
   \<and> pyodideReady (ep_run [ELoadSettles load_failure]
        (fresh_endpoint\<lparr>load_packages := [], load_options := None, pyodideReady := Some Pending\<rparr>))
      = Some (Rejected (ErrorObj ''Error'' ''Failed to fetch''))
   \<and> initialize None None (ep_run [ELoadSettles load_failure]
        (fresh_endpoint\<lparr>load_packages := [], load_options := None, pyodideReady := Some Pending\<rparr>))
      = Inl (ErrorObj ''Error'' ''pyodide was already initialized'')"
proof -
  have first: "initialize None None fresh_endpoint =
     Inr (fresh_endpoint\<lparr>load_packages := [], load_options := None, pyodideReady := Some Pending\<rparr>)"
    by (simp add: initialize_fresh)
  have failed: "pyodideReady (ep_run [ELoadSettles load_failure]
        (fresh_endpoint\<lparr>load_packages := [], load_options := None, pyodideReady := Some Pending\<rparr>))
      = Some (Rejected (ErrorObj ''Error'' ''Failed to fetch''))"
    by (simp add: load_settles_def priv_loadPyodide_settles_def load_failure_def)
  have again: "initialize None None (ep_run [ELoadSettles load_failure]
        (fresh_endpoint\<lparr>load_packages := [], load_options := None, pyodideReady := Some Pending\<rparr>))
      = Inl (ErrorObj ''Error'' ''pyodide was already initialized'')"
    using initialize_only_once [OF first] by blast
  from first failed again show ?thesis by (intro conjI)
qed

end
